theory Spec2Isabelle
  imports Complex_Main "HOL-Library.Multiset"
begin

section \<open>JavaScript dates and numbers\<close>

text \<open>
  Both service modules (\<^verbatim>\<open>server/services/kepi-schedule.ts\<close> and the ANC guidelines
  module) compute with JavaScript \<^verbatim>\<open>Date\<close> objects. A \<^verbatim>\<open>Date\<close> holds a time value: an
  integral number of milliseconds since 1970-01-01T00:00:00Z of magnitude at most
  \<open>8.64e15\<close>, or NaN (an "Invalid Date"). The model is \<open>int option\<close>, \<open>None\<close> being the
  Invalid Date.

  \<^item> \<^verbatim>\<open>new Date(s)\<close> for a string \<^verbatim>\<open>s\<close> is the engine's parser. The functions below take
    its result: \<open>Some t\<close> for a string that parses (a date-only ISO string
    \<^verbatim>\<open>YYYY-MM-DD\<close> parses to midnight UTC of that day), \<open>None\<close> for one that does not.
  \<^item> \<^verbatim>\<open>new Date()\<close> reads the clock. Every function that does so takes the instant it
    reads as an argument \<open>today\<close> (milliseconds, always a valid time value).
  \<^item> \<^verbatim>\<open>d.toISOString().split('T')[0]\<close> is the UTC calendar day of \<^verbatim>\<open>d\<close>, and throws a
    \<^verbatim>\<open>RangeError\<close> on an Invalid Date. A calendar day is represented by its day
    number (days since 1970-01-01, \<open>t div msPerDay\<close> rounding towards minus infinity);
    day numbers and the strings \<^verbatim>\<open>YYYY-MM-DD\<close> correspond one to one, and parsing the
    string again gives midnight UTC, \<open>day * msPerDay\<close>.
  \<^item> \<^verbatim>\<open>d.getDate()\<close> and \<^verbatim>\<open>d.setDate(k)\<close> work in the local time zone of the process,
    which the functions that call them take as an argument \<open>zone\<close> (see below).
\<close>

type_synonym jsdate = "int option"

definition msPerDay :: int where
  "msPerDay = 1000 * 60 * 60 * 24"

definition maxTime :: int where
  "maxTime = 8640000000000000"

definition TimeClip :: "int \<Rightarrow> jsdate" where
  "TimeClip t = (if \<bar>t\<bar> > maxTime then None else Some t)"

text \<open>The Date values a program can hold: \<^verbatim>\<open>new Date(s)\<close> clips as well.\<close>

definition validDate :: "jsdate \<Rightarrow> bool" where
  "validDate d = (case d of None \<Rightarrow> True | Some t \<Rightarrow> \<bar>t\<bar> \<le> maxTime)"

text \<open>
  The time zone of the process, as the language definition uses it: the offset of local
  time from UTC in milliseconds, at a UTC time value (\<^verbatim>\<open>LocalTZA(t, true)\<close>) and at a
  local time value (\<^verbatim>\<open>LocalTZA(t, false)\<close>; a wall-clock time that a transition skips or
  repeats is read with the offset before the transition). \<^verbatim>\<open>LocalTime\<close> and \<^verbatim>\<open>UTC\<close> are the
  two conversions of the language definition.
\<close>

record timeZone =
  offsetAtUTC :: "int \<Rightarrow> int"
  offsetAtLocal :: "int \<Rightarrow> int"

definition LocalTime :: "timeZone \<Rightarrow> int \<Rightarrow> int" where
  "LocalTime zone t = t + offsetAtUTC zone t"

definition UTC :: "timeZone \<Rightarrow> int \<Rightarrow> int" where
  "UTC zone t = t - offsetAtLocal zone t"

text \<open>
  A zone with the same offset at all times (\<open>fixedZone 0\<close> is UTC, \<open>fixedZone 10800000\<close> is
  Africa/Nairobi), and America/New_York with its rules for 2024 and 2025 (UTC-5; UTC-4
  from 2024-03-10T07:00Z, which is 03:00 on the wall clock, to 2024-11-03T06:00Z, which
  is 02:00 on the wall clock, and from 2025-03-09T07:00Z to 2025-11-02T06:00Z).
\<close>

definition fixedZone :: "int \<Rightarrow> timeZone" where
  "fixedZone c = \<lparr>offsetAtUTC = (\<lambda>t. c), offsetAtLocal = (\<lambda>t. c)\<rparr>"

definition zoneUTC :: timeZone where
  "zoneUTC = fixedZone 0"

definition zoneNewYork :: timeZone where
  "zoneNewYork =
     \<lparr>offsetAtUTC = (\<lambda>t. if (1710054000000 \<le> t \<and> t < 1730613600000) \<or>
                              (1741503600000 \<le> t \<and> t < 1762063200000)
                           then - 14400000 else - 18000000),
      offsetAtLocal = (\<lambda>t. if (1710039600000 \<le> t \<and> t < 1730599200000) \<or>
                                (1741489200000 \<le> t \<and> t < 1762048800000)
                             then - 14400000 else - 18000000)\<rparr>"

text \<open>
  \<^verbatim>\<open>d.setDate(b.getDate() + n)\<close> for a date \<^verbatim>\<open>d\<close> that is a copy of \<^verbatim>\<open>b\<close>. By the language
  definition \<^verbatim>\<open>getDate\<close> is the day of the month of the local time of \<^verbatim>\<open>b\<close>, and \<^verbatim>\<open>setDate(k)\<close>
  builds the local time with the year, the month and the time within the day of the
  local time of \<^verbatim>\<open>d\<close> and with day of the month \<open>k\<close> (days beyond the end of the month run
  into the next months), converts it to UTC and clips it (\<^verbatim>\<open>TimeClip\<close>): the new local time
  is the old one moved by exactly \<open>n\<close> days on the wall clock, and the date is invalid
  when its UTC time value leaves the range of time values.
\<close>

definition addDays :: "timeZone \<Rightarrow> jsdate \<Rightarrow> int \<Rightarrow> jsdate" where
  "addDays zone d n =
     (case d of
        None \<Rightarrow> None
      | Some t \<Rightarrow> TimeClip (UTC zone (LocalTime zone t + n * msPerDay)))"

datatype error = RangeError

text \<open>\<^verbatim>\<open>d.toISOString().split('T')[0]\<close>, the day as its day number.\<close>

definition toISODate :: "jsdate \<Rightarrow> error + int" where
  "toISODate d = (case d of None \<Rightarrow> Inl RangeError | Some t \<Rightarrow> Inr (t div msPerDay))"

text \<open>\<^verbatim>\<open>new Date(s).getTime()\<close> for the string \<^verbatim>\<open>s\<close> of a day number.\<close>

definition parseISODate :: "int \<Rightarrow> int" where
  "parseISODate day = day * msPerDay"

text \<open>
  \<^verbatim>\<open>Math.ceil(a / b)\<close> and \<^verbatim>\<open>Math.floor(a / b)\<close> on integers \<open>a\<close> and \<open>b > 0\<close>. The source
  divides in double precision; for the magnitudes that occur (time differences below
  \<open>2^53\<close> milliseconds, divided by \<open>86400000\<close>) the rounded quotient lies on the same
  side of every integer as the exact one, so the integer results are the exact ones.
\<close>

definition Math_ceil_div :: "int \<Rightarrow> int \<Rightarrow> int" where
  "Math_ceil_div a b = - ((- a) div b)"

definition Math_floor_div :: "int \<Rightarrow> int \<Rightarrow> int" where
  "Math_floor_div a b = a div b"

section \<open>Antenatal care: gestational age and the risk heuristic\<close>

text \<open>
  \<^verbatim>\<open>calculatePregnancyWeeks(lmpDate)\<close>. The fields \<^verbatim>\<open>weeks\<close> and \<^verbatim>\<open>days\<close> are NaN (\<open>None\<close>)
  when \<^verbatim>\<open>lmpDate\<close> does not parse; every comparison with NaN is false, which leaves
  the trimester at 1.
\<close>

record PregnancyWeeks =
  weeks :: "int option"
  days :: "int option"
  trimester :: int

definition calculatePregnancyWeeks :: "int \<Rightarrow> jsdate \<Rightarrow> PregnancyWeeks" where
  "calculatePregnancyWeeks today lmp =
     (case lmp of
        None \<Rightarrow> \<lparr>weeks = None, days = None, trimester = 1\<rparr>
      | Some l \<Rightarrow>
          (let diffTime = \<bar>today - l\<bar>;
               diffDays = Math_ceil_div diffTime msPerDay;
               w = Math_floor_div diffDays 7;
               d = diffDays mod 7;
               tr = (if w \<ge> 14 \<and> w \<le> 27 then 2 else if w \<ge> 28 then 3 else 1)
           in \<lparr>weeks = Some w, days = Some d, trimester = tr\<rparr>))"

text \<open>
  \<^verbatim>\<open>getPregnancyRiskFactors(age, currentWeeks, tetanusVaccinated, ifasStarted, ancVisits)\<close>.
  The three local variables are the state; each \<^verbatim>\<open>if\<close> statement is one step on it, in
  the order of the source.
\<close>

datatype RiskLevel = low | medium | high

record RiskAssessment =
  riskLevel :: RiskLevel
  factors :: "string list"
  recommendations :: "string list"

definition ageUnder18 :: "int \<Rightarrow> RiskAssessment \<Rightarrow> RiskAssessment" where
  "ageUnder18 age s =
     (if age < 18
      then \<lparr>riskLevel = medium,
            factors = factors s @ [''Young maternal age (under 18)''],
            recommendations = recommendations s @ [''Extra nutritional support needed'']\<rparr>
      else s)"

definition ageOver35 :: "int \<Rightarrow> RiskAssessment \<Rightarrow> RiskAssessment" where
  "ageOver35 age s =
     (if age > 35
      then \<lparr>riskLevel = medium,
            factors = factors s @ [''Advanced maternal age (over 35)''],
            recommendations = recommendations s @ [''More frequent monitoring may be needed'']\<rparr>
      else s)"

definition tetanusOverdue :: "int \<Rightarrow> bool \<Rightarrow> RiskAssessment \<Rightarrow> RiskAssessment" where
  "tetanusOverdue currentWeeks tetanusVaccinated s =
     (if currentWeeks > 36 \<and> \<not> tetanusVaccinated
      then \<lparr>riskLevel = high,
            factors = factors s @ [''Tetanus vaccination overdue''],
            recommendations = recommendations s @ [''Get tetanus vaccination immediately'']\<rparr>
      else s)"

definition ifasNotStarted :: "int \<Rightarrow> bool \<Rightarrow> RiskAssessment \<Rightarrow> RiskAssessment" where
  "ifasNotStarted currentWeeks ifasStarted s =
     (if \<not> ifasStarted \<and> currentWeeks > 12
      then \<lparr>riskLevel = medium,
            factors = factors s @ [''IFAS supplements not started''],
            recommendations = recommendations s @
              [''Start iron and folic acid supplements immediately'']\<rparr>
      else s)"

definition expectedVisits :: "int \<Rightarrow> int" where
  "expectedVisits currentWeeks = min (Math_floor_div currentWeeks 8) 4"

definition missedAncVisits :: "int \<Rightarrow> int \<Rightarrow> RiskAssessment \<Rightarrow> RiskAssessment" where
  "missedAncVisits currentWeeks ancVisits s =
     (if ancVisits < expectedVisits currentWeeks
      then \<lparr>riskLevel =
              (if expectedVisits currentWeeks - ancVisits > 1 then high else riskLevel s),
            factors = factors s @ [''Missed ANC visits''],
            recommendations = recommendations s @
              [''Catch up on missed antenatal care visits'']\<rparr>
      else s)"

definition getPregnancyRiskFactors ::
  "int \<Rightarrow> int \<Rightarrow> bool \<Rightarrow> bool \<Rightarrow> int \<Rightarrow> RiskAssessment" where
  "getPregnancyRiskFactors age currentWeeks tetanusVaccinated ifasStarted ancVisits =
     missedAncVisits currentWeeks ancVisits
       (ifasNotStarted currentWeeks ifasStarted
         (tetanusOverdue currentWeeks tetanusVaccinated
           (ageOver35 age
             (ageUnder18 age \<lparr>riskLevel = low, factors = [], recommendations = []\<rparr>))))"

text \<open>
  The decision table as the specification words it: every rule that fires contributes
  its own tier, and the result is the most severe tier contributed (\<open>low\<close> when no rule
  fires).
\<close>

fun severity :: "RiskLevel \<Rightarrow> nat" where
  "severity low = 0"
| "severity medium = 1"
| "severity high = 2"

definition maxTier :: "RiskLevel \<Rightarrow> RiskLevel \<Rightarrow> RiskLevel" where
  "maxTier a b = (if severity a \<le> severity b then b else a)"

definition triggeredTiers :: "int \<Rightarrow> int \<Rightarrow> bool \<Rightarrow> bool \<Rightarrow> int \<Rightarrow> RiskLevel list" where
  "triggeredTiers age currentWeeks tetanusVaccinated ifasStarted ancVisits =
     (if age < 18 then [medium] else []) @
     (if age > 35 then [medium] else []) @
     (if currentWeeks > 36 \<and> \<not> tetanusVaccinated then [high] else []) @
     (if \<not> ifasStarted \<and> currentWeeks > 12 then [medium] else []) @
     (if expectedVisits currentWeeks - ancVisits > 1 then [high] else [])"

definition spec_maxTriggeredTier :: "int \<Rightarrow> int \<Rightarrow> bool \<Rightarrow> bool \<Rightarrow> int \<Rightarrow> RiskLevel" where
  "spec_maxTriggeredTier age currentWeeks tetanusVaccinated ifasStarted ancVisits =
     foldr maxTier (triggeredTiers age currentWeeks tetanusVaccinated ifasStarted ancVisits) low"

text \<open>The number of rules of the source that fire (the ANC rule: any shortfall).\<close>

definition firedRules :: "int \<Rightarrow> int \<Rightarrow> bool \<Rightarrow> bool \<Rightarrow> int \<Rightarrow> nat" where
  "firedRules age currentWeeks tetanusVaccinated ifasStarted ancVisits =
     (if age < 18 then 1 else 0) +
     (if age > 35 then 1 else 0) +
     (if currentWeeks > 36 \<and> \<not> tetanusVaccinated then 1 else 0) +
     (if \<not> ifasStarted \<and> currentWeeks > 12 then 1 else 0) +
     (if ancVisits < expectedVisits currentWeeks then 1 else 0)"

section \<open>The KEPI vaccination schedule\<close>

text \<open>
  The static table \<^verbatim>\<open>KEPI_SCHEDULE\<close> of \<^verbatim>\<open>server/services/kepi-schedule.ts\<close>. The optional
  lists \<^verbatim>\<open>sideEffects\<close>, \<^verbatim>\<open>preVaccinationTips\<close> and \<^verbatim>\<open>postVaccinationTips\<close> are left out:
  none of the functions below reads them. \<^verbatim>\<open>ageDays\<close> is optional (\<open>None\<close> when the
  entry does not have it). The field \<^verbatim>\<open>method\<close> of the source is \<open>method'\<close> here, in this
  record and in the two below that have it.
\<close>

record Vaccine =
  name :: string
  dose :: int
  ageWeeks :: int
  ageDays :: "int option"
  method' :: string
  purpose :: string

record VaccinationScheduleItem =
  name :: string
  dose :: int
  date :: int
  ageAtVaccination :: string
  method' :: string
  purpose :: string

definition KEPI_SCHEDULE :: "Vaccine list" where
  "KEPI_SCHEDULE =
   [\<lparr>Vaccine.name = ''BCG'', Vaccine.dose = 1, ageWeeks = 0, ageDays = Some 0,
      Vaccine.method' = ''0.05ml intradermal injection, left forearm'',
      Vaccine.purpose = ''Protects against tuberculosis (TB)''\<rparr>,
    \<lparr>Vaccine.name = ''OPV'', Vaccine.dose = 1, ageWeeks = 0, ageDays = Some 0,
      Vaccine.method' = ''2 oral drops'',
      Vaccine.purpose = ''Protects against polio''\<rparr>,
    \<lparr>Vaccine.name = ''Pentavalent'', Vaccine.dose = 1, ageWeeks = 6, ageDays = None,
      Vaccine.method' = ''0.5ml intramuscular, outer thigh'',
      Vaccine.purpose = ''Protects against diphtheria, pertussis (whooping cough), tetanus, hepatitis B, and Haemophilus influenzae type b''\<rparr>,
    \<lparr>Vaccine.name = ''OPV'', Vaccine.dose = 2, ageWeeks = 6, ageDays = None,
      Vaccine.method' = ''Oral drops'',
      Vaccine.purpose = ''Booster protection against polio''\<rparr>,
    \<lparr>Vaccine.name = ''PCV'', Vaccine.dose = 1, ageWeeks = 6, ageDays = None,
      Vaccine.method' = ''0.5ml intramuscular'',
      Vaccine.purpose = ''Protects against pneumonia and meningitis''\<rparr>,
    \<lparr>Vaccine.name = ''Rotavirus'', Vaccine.dose = 1, ageWeeks = 6, ageDays = None,
      Vaccine.method' = ''1.5ml oral'',
      Vaccine.purpose = ''Protects against severe diarrhea''\<rparr>,
    \<lparr>Vaccine.name = ''Pentavalent'', Vaccine.dose = 2, ageWeeks = 10, ageDays = None,
      Vaccine.method' = ''0.5ml intramuscular'',
      Vaccine.purpose = ''Second dose for continued protection''\<rparr>,
    \<lparr>Vaccine.name = ''OPV'', Vaccine.dose = 3, ageWeeks = 10, ageDays = None,
      Vaccine.method' = ''Oral drops'',
      Vaccine.purpose = ''Third dose of polio protection''\<rparr>,
    \<lparr>Vaccine.name = ''PCV'', Vaccine.dose = 2, ageWeeks = 10, ageDays = None,
      Vaccine.method' = ''0.5ml intramuscular'',
      Vaccine.purpose = ''Second dose for pneumonia protection''\<rparr>,
    \<lparr>Vaccine.name = ''Rotavirus'', Vaccine.dose = 2, ageWeeks = 10, ageDays = None,
      Vaccine.method' = ''1.5ml oral'',
      Vaccine.purpose = ''Second dose for rotavirus protection''\<rparr>,
    \<lparr>Vaccine.name = ''Pentavalent'', Vaccine.dose = 3, ageWeeks = 14, ageDays = None,
      Vaccine.method' = ''0.5ml intramuscular'',
      Vaccine.purpose = ''Final dose of pentavalent series''\<rparr>,
    \<lparr>Vaccine.name = ''OPV'', Vaccine.dose = 4, ageWeeks = 14, ageDays = None,
      Vaccine.method' = ''Oral drops'',
      Vaccine.purpose = ''Fourth dose of polio protection''\<rparr>,
    \<lparr>Vaccine.name = ''PCV'', Vaccine.dose = 3, ageWeeks = 14, ageDays = None,
      Vaccine.method' = ''0.5ml intramuscular'',
      Vaccine.purpose = ''Third dose completes primary PCV series''\<rparr>,
    \<lparr>Vaccine.name = ''IPV'', Vaccine.dose = 1, ageWeeks = 14, ageDays = None,
      Vaccine.method' = ''0.5ml injection'',
      Vaccine.purpose = ''Inactivated polio vaccine for additional protection''\<rparr>,
    \<lparr>Vaccine.name = ''Measles-Rubella'', Vaccine.dose = 1, ageWeeks = 39, ageDays = None,
      Vaccine.method' = ''0.5ml injection'',
      Vaccine.purpose = ''Protects against measles and rubella''\<rparr>,
    \<lparr>Vaccine.name = ''Vitamin A'', Vaccine.dose = 1, ageWeeks = 39, ageDays = None,
      Vaccine.method' = ''200,000 IU oral'',
      Vaccine.purpose = ''Supports immune system and vision''\<rparr>,
    \<lparr>Vaccine.name = ''Measles-Rubella'', Vaccine.dose = 2, ageWeeks = 78, ageDays = None,
      Vaccine.method' = ''0.5ml injection'',
      Vaccine.purpose = ''Booster dose for measles and rubella protection''\<rparr>,
    \<lparr>Vaccine.name = ''Vitamin A'', Vaccine.dose = 2, ageWeeks = 78, ageDays = None,
      Vaccine.method' = ''200,000 IU oral'',
      Vaccine.purpose = ''Continued vitamin A supplementation''\<rparr>]"

text \<open>The template literal \<^verbatim>\<open>`${n} weeks`\<close> prints the integer \<open>n\<close> in decimal.\<close>

fun showNat :: "nat \<Rightarrow> string" where
  "showNat n =
     (if n < 10 then [''0123456789'' ! n]
      else showNat (n div 10) @ [''0123456789'' ! (n mod 10)])"

declare showNat.simps [simp del]

definition showInt :: "int \<Rightarrow> string" where
  "showInt i = (if i < 0 then CHR ''-'' # showNat (nat (- i)) else showNat (nat i))"

text \<open>
  \<^verbatim>\<open>generateVaccinationSchedule(dateOfBirth)\<close>, in a process with time zone \<open>zone\<close>. In the
  body of the loop,
  \<open>vaccinationDate\<close> is the copy of the birth date moved by the entry's offset, and
  \<open>scheduleItem\<close> the object pushed; \<^verbatim>\<open>toISOString\<close> throws on an Invalid Date, which
  ends the call. \<open>pushSchedule\<close> is the loop with the array \<^verbatim>\<open>schedule\<close> as accumulator.
\<close>

definition vaccinationDate :: "timeZone \<Rightarrow> jsdate \<Rightarrow> Vaccine \<Rightarrow> jsdate" where
  "vaccinationDate zone birthDate vaccine =
     (case ageDays vaccine of
        Some d \<Rightarrow> addDays zone birthDate d
      | None \<Rightarrow> addDays zone birthDate (ageWeeks vaccine * 7))"

definition scheduleItem :: "Vaccine \<Rightarrow> int \<Rightarrow> VaccinationScheduleItem" where
  "scheduleItem vaccine isoDate =
     \<lparr>name = Vaccine.name vaccine,
      dose = Vaccine.dose vaccine,
      date = isoDate,
      ageAtVaccination =
        (if ageWeeks vaccine = 0 then ''At birth'' else showInt (ageWeeks vaccine) @ '' weeks''),
      method' = Vaccine.method' vaccine,
      purpose = Vaccine.purpose vaccine\<rparr>"

fun pushSchedule ::
  "timeZone \<Rightarrow> jsdate \<Rightarrow> Vaccine list \<Rightarrow> VaccinationScheduleItem list \<Rightarrow>
   error + VaccinationScheduleItem list" where
  "pushSchedule zone birthDate [] schedule = Inr schedule"
| "pushSchedule zone birthDate (vaccine # rest) schedule =
     (case toISODate (vaccinationDate zone birthDate vaccine) of
        Inl e \<Rightarrow> Inl e
      | Inr isoDate \<Rightarrow>
          pushSchedule zone birthDate rest (schedule @ [scheduleItem vaccine isoDate]))"

text \<open>
  The final \<^verbatim>\<open>schedule.sort((a, b) => new Date(a.date).getTime() - new Date(b.date).getTime())\<close>:
  \<^verbatim>\<open>Array.prototype.sort\<close> is a stable sort, and the comparator orders by the time
  value of the item's day, so the result is the stable sort by that key
  (\<^const>\<open>sort_key\<close>; by \<open>properties_for_sort_key\<close> the sorted, stable rearrangement of a list
  is unique, whichever algorithm the engine runs).

  The table is the module constant \<^verbatim>\<open>KEPI_SCHEDULE\<close>; \<open>generateScheduleFrom\<close> is the body
  of the function with the table as a parameter.
\<close>

definition generateScheduleFrom ::
  "timeZone \<Rightarrow> Vaccine list \<Rightarrow> jsdate \<Rightarrow> error + VaccinationScheduleItem list" where
  "generateScheduleFrom zone table dateOfBirth =
     (case pushSchedule zone dateOfBirth table [] of
        Inl e \<Rightarrow> Inl e
      | Inr schedule \<Rightarrow> Inr (sort_key (\<lambda>a. parseISODate (date a)) schedule))"

definition generateVaccinationSchedule ::
  "timeZone \<Rightarrow> jsdate \<Rightarrow> error + VaccinationScheduleItem list" where
  "generateVaccinationSchedule zone dateOfBirth =
     generateScheduleFrom zone KEPI_SCHEDULE dateOfBirth"




text \<open>
  The completion records are rows of the table \<^verbatim>\<open>vaccinations\<close> (\<^verbatim>\<open>shared/schema.ts\<close>);
  the fields kept are the ones read here and the two dates a row stores.
\<close>

record Vaccination =
  vaccineName :: string
  doseNumber :: int
  scheduledDate :: string
  administeredDate :: "string option"
  status :: string

text \<open>The object \<^verbatim>\<open>getNextVaccination\<close> returns.\<close>

record NextVaccination =
  vaccineName :: string
  doseNumber :: int
  scheduledDate :: int
  status :: string
  method' :: string
  purpose :: string

text \<open>
  \<^verbatim>\<open>completedVaccinations.some(completed => ...)\<close> for one scheduled item, and the loop
  of \<^verbatim>\<open>getNextVaccination\<close>, which returns at the first item not completed. \<open>today\<close> is
  the instant \<^verbatim>\<open>new Date()\<close> reads; the comparison \<^verbatim>\<open>scheduledDate < today\<close> is between
  time values.
\<close>

definition isCompleted :: "Vaccination list \<Rightarrow> VaccinationScheduleItem \<Rightarrow> bool" where
  "isCompleted completedVaccinations scheduledVaccine =
     list_ex (\<lambda>completed.
        Vaccination.vaccineName completed = VaccinationScheduleItem.name scheduledVaccine \<and>
        Vaccination.doseNumber completed = VaccinationScheduleItem.dose scheduledVaccine \<and>
        Vaccination.status completed = ''administered'') completedVaccinations"

definition nextVaccination :: "VaccinationScheduleItem \<Rightarrow> int \<Rightarrow> NextVaccination" where
  "nextVaccination scheduledVaccine today =
     (let scheduledDate = parseISODate (date scheduledVaccine);
          isOverdue = scheduledDate < today
      in \<lparr>vaccineName = VaccinationScheduleItem.name scheduledVaccine,
          doseNumber = VaccinationScheduleItem.dose scheduledVaccine,
          scheduledDate = date scheduledVaccine,
          status = (if isOverdue then ''overdue'' else ''scheduled''),
          method' = VaccinationScheduleItem.method' scheduledVaccine,
          purpose = VaccinationScheduleItem.purpose scheduledVaccine\<rparr>)"

fun findNextPending ::
  "VaccinationScheduleItem list \<Rightarrow> Vaccination list \<Rightarrow> int \<Rightarrow> NextVaccination option" where
  "findNextPending [] completedVaccinations today = None"
| "findNextPending (scheduledVaccine # rest) completedVaccinations today =
     (if \<not> isCompleted completedVaccinations scheduledVaccine
      then Some (nextVaccination scheduledVaccine today)
      else findNextPending rest completedVaccinations today)"

definition getNextVaccination ::
  "timeZone \<Rightarrow> jsdate \<Rightarrow> Vaccination list \<Rightarrow> int \<Rightarrow> error + NextVaccination option" where
  "getNextVaccination zone dateOfBirth completedVaccinations today =
     (case generateVaccinationSchedule zone dateOfBirth of
        Inl e \<Rightarrow> Inl e
      | Inr schedule \<Rightarrow> Inr (findNextPending schedule completedVaccinations today))"

text \<open>
  \<^verbatim>\<open>calculateVaccinationProgress(dateOfBirth, completedVaccinations)\<close>. It reads the clock
  itself (\<open>today\<close>), and \<^verbatim>\<open>getNextVaccination\<close>, which it calls, reads it again
  (\<open>today'\<close>).

  \<open>roundedPercentage c d\<close> is \<^verbatim>\<open>Math.round((c / d) * 100)\<close> for array lengths \<open>c\<close> and
  \<open>d > 0\<close>; \<^verbatim>\<open>Math.round\<close> rounds to the nearest integer, a half upwards. The source
  computes the quotient and the product in double precision. With \<open>d \<le> 18\<close> (the
  length of the table) and \<open>c < 2^32\<close> (the longest array) the error of the product
  is below \<open>10^-4\<close>, while \<open>100 * c / d\<close> is either at least \<open>1 / 36\<close> away from every
  half-integer, or is a half-integer with \<open>d\<close> equal to 8 or 16, where both operations
  are exact: the rounded result is that of the exact quotient.
\<close>

record VaccinationProgress =
  totalVaccines :: nat
  completedVaccines :: nat
  progressPercentage :: int
  nextDue :: "NextVaccination option"

definition Math_round :: "rat \<Rightarrow> int" where
  "Math_round x = \<lfloor>x + 1 / 2\<rfloor>"

definition roundedPercentage :: "nat \<Rightarrow> nat \<Rightarrow> int" where
  "roundedPercentage c d = Math_round ((of_nat c / of_nat d) * 100)"

definition calculateVaccinationProgress ::
  "timeZone \<Rightarrow> jsdate \<Rightarrow> Vaccination list \<Rightarrow> int \<Rightarrow> int \<Rightarrow>
   error + VaccinationProgress" where
  "calculateVaccinationProgress zone dateOfBirth completedVaccinations today today' =
     (case generateVaccinationSchedule zone dateOfBirth of
        Inl e \<Rightarrow> Inl e
      | Inr schedule \<Rightarrow>
          (let dueVaccines = filter (\<lambda>v. parseISODate (date v) \<le> today) schedule;
               completed = filter (\<lambda>v. Vaccination.status v = ''administered'')
                             completedVaccinations
           in case getNextVaccination zone dateOfBirth completedVaccinations today' of
                Inl e \<Rightarrow> Inl e
              | Inr next \<Rightarrow>
                  Inr \<lparr>totalVaccines = length dueVaccines,
                       completedVaccines = length completed,
                       progressPercentage =
                         (if length dueVaccines > 0
                          then roundedPercentage (length completed) (length dueVaccines)
                          else 0),
                       nextDue = next\<rparr>))"

section \<open>Notions used to state the properties\<close>

text \<open>
  The offset of a table entry in whole days; the time value \<^verbatim>\<open>setDate\<close> computes, before
  it is clipped, when the birth date has time value \<open>t\<close> and the offset is \<open>n\<close> days; the
  visit the loop pushes for an entry; and the condition under which the time value
  computed for the entry is within the range of time values.
\<close>

definition offsetDays :: "Vaccine \<Rightarrow> int" where
  "offsetDays vaccine = (case ageDays vaccine of Some d \<Rightarrow> d | None \<Rightarrow> ageWeeks vaccine * 7)"

definition shiftedTime :: "timeZone \<Rightarrow> int \<Rightarrow> int \<Rightarrow> int" where
  "shiftedTime zone t n = UTC zone (LocalTime zone t + n * msPerDay)"

definition entryVisit :: "timeZone \<Rightarrow> int \<Rightarrow> Vaccine \<Rightarrow> VaccinationScheduleItem" where
  "entryVisit zone t vaccine =
     scheduleItem vaccine (shiftedTime zone t (offsetDays vaccine) div msPerDay)"

definition inRange :: "timeZone \<Rightarrow> int \<Rightarrow> Vaccine \<Rightarrow> bool" where
  "inRange zone t vaccine = (\<bar>shiftedTime zone t (offsetDays vaccine)\<bar> \<le> maxTime)"

text \<open>What \<^const>\<open>isCompleted\<close> reads of a completion record.\<close>

definition completionKey :: "Vaccination \<Rightarrow> string \<times> int \<times> string" where
  "completionKey completed =
     (Vaccination.vaccineName completed, Vaccination.doseNumber completed,
      Vaccination.status completed)"

section \<open>The risk heuristic\<close>

lemmas rule_defs = ageUnder18_def ageOver35_def tetanusOverdue_def ifasNotStarted_def
  missedAncVisits_def

text \<open>The tier the source computes, and the tier of the decision table, in closed form.\<close>

lemma riskLevel_closed_form:
  "riskLevel (getPregnancyRiskFactors age currentWeeks tetanusVaccinated ifasStarted ancVisits) =
     (if expectedVisits currentWeeks - ancVisits > 1 then high
      else if \<not> ifasStarted \<and> currentWeeks > 12 then medium
      else if currentWeeks > 36 \<and> \<not> tetanusVaccinated then high
      else if age > 35 \<or> age < 18 then medium
      else low)"
  by (simp add: getPregnancyRiskFactors_def rule_defs)

lemma spec_maxTriggeredTier_closed_form:
  "spec_maxTriggeredTier age currentWeeks tetanusVaccinated ifasStarted ancVisits =
     (if expectedVisits currentWeeks - ancVisits > 1 \<or>
         (currentWeeks > 36 \<and> \<not> tetanusVaccinated) then high
      else if (\<not> ifasStarted \<and> currentWeeks > 12) \<or> age > 35 \<or> age < 18 then medium
      else low)"
  by (simp add: spec_maxTriggeredTier_def triggeredTiers_def maxTier_def)

text \<open>
  The two agree on every input but those where the tetanus rule and the IFAS rule both
  fire and the ANC rule does not raise the tier.
\<close>

lemma riskLevel_is_max_unless_downgraded:
  assumes "\<not> (currentWeeks > 36 \<and> \<not> tetanusVaccinated \<and> \<not> ifasStarted \<and>
              \<not> expectedVisits currentWeeks - ancVisits > 1)"
  shows "riskLevel (getPregnancyRiskFactors age currentWeeks tetanusVaccinated ifasStarted ancVisits)
           = spec_maxTriggeredTier age currentWeeks tetanusVaccinated ifasStarted ancVisits"
  using assms unfolding riskLevel_closed_form spec_maxTriggeredTier_closed_form by auto

text \<open>
  C1. The claim: the tier returned equals the maximum severity among the rules that
  fire, and no later rule lowers a tier an earlier rule raised. At age 25, week 37, no
  tetanus vaccination, IFAS not started and 4 ANC visits, the tetanus rule raises the
  tier to \<open>high\<close> and the IFAS rule, evaluated after it, assigns \<open>medium\<close>: the source
  returns \<open>medium\<close> with the factor "Tetanus vaccination overdue" in its list, where the
  maximum over the rules that fired is \<open>high\<close>.
\<close>

theorem risk_tier_downgraded_by_ifas_rule:
  "riskLevel (getPregnancyRiskFactors 25 37 False False 4) = medium \<and>
   spec_maxTriggeredTier 25 37 False False 4 = high \<and>
   factors (getPregnancyRiskFactors 25 37 False False 4) =
     [''Tetanus vaccination overdue'', ''IFAS supplements not started'']"
  by (simp add: getPregnancyRiskFactors_def rule_defs expectedVisits_def Math_floor_div_def
      spec_maxTriggeredTier_def triggeredTiers_def maxTier_def)

text \<open>
  C9. For every input the lists \<open>factors\<close> and \<open>recommendations\<close> have the same length,
  which is the number of rules that fire: each rule that fires appends one entry to
  each list.
\<close>

theorem factors_recommendations_same_length:
  "length (factors (getPregnancyRiskFactors age currentWeeks tetanusVaccinated ifasStarted ancVisits))
     = length (recommendations
         (getPregnancyRiskFactors age currentWeeks tetanusVaccinated ifasStarted ancVisits)) \<and>
   length (factors (getPregnancyRiskFactors age currentWeeks tetanusVaccinated ifasStarted ancVisits))
     = firedRules age currentWeeks tetanusVaccinated ifasStarted ancVisits"
  by (simp add: getPregnancyRiskFactors_def rule_defs firedRules_def)

section \<open>Gestational age\<close>

lemma msPerDay_pos: "0 < msPerDay"
  by (simp add: msPerDay_def)

text \<open>\<^const>\<open>Math_ceil_div\<close> is the ceiling of the quotient.\<close>

lemma ceil_div_bounds:
  assumes b: "0 < b"
  shows "(Math_ceil_div a b - 1) * b < a \<and> a \<le> Math_ceil_div a b * b"
proof -
  define q where "q = (- a) div b"
  define r where "r = (- a) mod b"
  have e: "q * b + r = - a" unfolding q_def r_def by simp
  have r0: "0 \<le> r" and rb: "r < b" using b unfolding r_def by simp_all
  have c: "Math_ceil_div a b = - q" unfolding Math_ceil_div_def q_def by simp
  have "(- q - 1) * b = - (q * b) - b" by (simp add: algebra_simps)
  moreover have "- q * b = - (q * b)" by simp
  ultimately show ?thesis unfolding c using e r0 rb by linarith
qed

text \<open>
  C10. For every LMP date that parses, \<^verbatim>\<open>calculatePregnancyWeeks\<close> returns numbers
  \<open>weeks \<ge> 0\<close> and \<open>0 \<le> days < 7\<close> with \<open>7 * weeks + days\<close> the number of days, rounded
  up, in the absolute difference between today and the LMP date. An LMP date \<open>delta\<close>
  milliseconds in the future gives the same result as the one \<open>delta\<close> milliseconds in
  the past: a future LMP date is neither signalled nor told apart.
\<close>

theorem pregnancy_weeks_absolute:
  "\<exists>w d. weeks (calculatePregnancyWeeks today (Some lmp)) = Some w \<and>
          days (calculatePregnancyWeeks today (Some lmp)) = Some d \<and>
          0 \<le> w \<and> 0 \<le> d \<and> d < 7 \<and>
          (7 * w + d - 1) * msPerDay < \<bar>today - lmp\<bar> \<and>
          \<bar>today - lmp\<bar> \<le> (7 * w + d) * msPerDay \<and>
          calculatePregnancyWeeks today (Some (today + delta)) =
            calculatePregnancyWeeks today (Some (today - delta))"
proof -
  define n where "n = Math_ceil_div \<bar>today - lmp\<bar> msPerDay"
  have b: "(n - 1) * msPerDay < \<bar>today - lmp\<bar>" "\<bar>today - lmp\<bar> \<le> n * msPerDay"
    unfolding n_def using ceil_div_bounds [OF msPerDay_pos, of "\<bar>today - lmp\<bar>"] by simp_all
  have n0: "0 \<le> n"
  proof (rule ccontr)
    assume "\<not> 0 \<le> n"
    then have "n \<le> - 1" by simp
    then have "n * msPerDay \<le> (- 1) * msPerDay"
      using msPerDay_pos by (intro mult_right_mono) simp_all
    with b(2) msPerDay_pos show False by simp
  qed
  have w: "weeks (calculatePregnancyWeeks today (Some lmp)) = Some (n div 7)"
    and d: "days (calculatePregnancyWeeks today (Some lmp)) = Some (n mod 7)"
    by (simp_all add: calculatePregnancyWeeks_def Let_def Math_floor_div_def n_def)
  have e: "7 * (n div 7) + n mod 7 = n" by simp
  have s: "calculatePregnancyWeeks today (Some (today + delta)) =
           calculatePregnancyWeeks today (Some (today - delta))"
    by (simp add: calculatePregnancyWeeks_def)
  have "0 \<le> n div 7" using n0 by simp
  moreover have "0 \<le> n mod 7" "n mod 7 < 7" by simp_all
  moreover note w d s
  moreover have "(7 * (n div 7) + n mod 7 - 1) * msPerDay < \<bar>today - lmp\<bar>"
    "\<bar>today - lmp\<bar> \<le> (7 * (n div 7) + n mod 7) * msPerDay"
    unfolding e using b by simp_all
  ultimately show ?thesis by (intro exI [of _ "n div 7"] exI [of _ "n mod 7"] conjI)
qed

section \<open>Schedule generation\<close>

text \<open>
  The loop in closed form: with a birth date that parsed, every entry whose time value
  after \<^verbatim>\<open>setDate\<close> is in range contributes its visit, in table order, and the first entry
  out of range ends the call with the \<^verbatim>\<open>RangeError\<close> of \<^verbatim>\<open>toISOString\<close>; with an Invalid
  Date, the first entry does. In a zone with a fixed offset \<^verbatim>\<open>setDate\<close> moves the time
  value itself by whole days.
\<close>

lemma day_shift: "(t + n * msPerDay) div msPerDay = t div msPerDay + n"
  using msPerDay_pos by simp

lemma shiftedTime_fixedZone: "shiftedTime (fixedZone c) t n = t + n * msPerDay"
  by (simp add: shiftedTime_def UTC_def LocalTime_def fixedZone_def)

lemma vaccinationDate_Some:
  "vaccinationDate zone (Some t) vaccine = TimeClip (shiftedTime zone t (offsetDays vaccine))"
  by (simp add: vaccinationDate_def offsetDays_def addDays_def shiftedTime_def split: option.split)

lemma vaccinationDate_None: "vaccinationDate zone None vaccine = None"
  by (simp add: vaccinationDate_def addDays_def split: option.split)

lemma toISODate_vaccinationDate:
  "toISODate (vaccinationDate zone (Some t) vaccine) =
     (if inRange zone t vaccine
      then Inr (shiftedTime zone t (offsetDays vaccine) div msPerDay)
      else Inl RangeError)"
  by (simp add: vaccinationDate_Some TimeClip_def toISODate_def inRange_def)

lemma pushSchedule_Some:
  "pushSchedule zone (Some t) table schedule =
     (if list_all (inRange zone t) table then Inr (schedule @ map (entryVisit zone t) table)
      else Inl RangeError)"
proof (induction table arbitrary: schedule)
  case Nil
  show ?case by simp
next
  case (Cons vaccine rest)
  show ?case
    by (simp add: toISODate_vaccinationDate Cons.IH entryVisit_def)
qed

lemma pushSchedule_None:
  "pushSchedule zone None table schedule = (if table = [] then Inr schedule else Inl RangeError)"
  by (cases table) (simp_all add: vaccinationDate_None toISODate_def)

lemma generateScheduleFrom_Some:
  "generateScheduleFrom zone table (Some t) =
     (if list_all (inRange zone t) table
      then Inr (sort_key (\<lambda>a. parseISODate (date a)) (map (entryVisit zone t) table))
      else Inl RangeError)"
  by (simp add: generateScheduleFrom_def pushSchedule_Some)

lemma generateScheduleFrom_None:
  "generateScheduleFrom zone table None = (if table = [] then Inr [] else Inl RangeError)"
  by (simp add: generateScheduleFrom_def pushSchedule_None)

lemma generate_succeeds_iff:
  "(\<exists>schedule. generateScheduleFrom zone table (Some t) = Inr schedule) \<longleftrightarrow>
     list_all (inRange zone t) table"
  by (simp add: generateScheduleFrom_Some)

lemma date_scheduleItem: "date (scheduleItem vaccine d) = d"
  by (simp add: scheduleItem_def)

lemma date_entryVisit:
  "date (entryVisit zone t vaccine) = shiftedTime zone t (offsetDays vaccine) div msPerDay"
  by (simp add: entryVisit_def scheduleItem_def)

lemma date_entryVisit_fixedZone:
  "date (entryVisit (fixedZone c) t vaccine) = t div msPerDay + offsetDays vaccine"
  by (simp add: date_entryVisit shiftedTime_fixedZone day_shift)

lemma entryVisit_fixedZone:
  "entryVisit (fixedZone c) t vaccine = scheduleItem vaccine (t div msPerDay + offsetDays vaccine)"
  by (simp add: entryVisit_def shiftedTime_fixedZone day_shift)

lemma inRange_fixedZone:
  "inRange (fixedZone c) t vaccine = (\<bar>t + offsetDays vaccine * msPerDay\<bar> \<le> maxTime)"
  by (simp add: inRange_def shiftedTime_fixedZone)

lemma parseISODate_mono: "parseISODate a \<le> parseISODate b \<longleftrightarrow> a \<le> b"
  using msPerDay_pos by (simp add: parseISODate_def)

lemma parseISODate_inj: "parseISODate a = parseISODate b \<longleftrightarrow> a = b"
  using msPerDay_pos by (simp add: parseISODate_def)

lemma sorted_parse: "sorted (map (\<lambda>a. parseISODate (date a)) xs) = sorted (map date xs)"
  by (induction xs) (auto simp: parseISODate_mono)

lemma sort_by_time_sorted:
  "sorted (map date (sort_key (\<lambda>a. parseISODate (date a)) xs))"
  using sorted_sort_key [of "\<lambda>a. parseISODate (date a)" xs] by (simp only: sorted_parse)

lemma sort_by_time_stable:
  "filter (\<lambda>a. date a = k) (sort_key (\<lambda>a. parseISODate (date a)) xs) = filter (\<lambda>a. date a = k) xs"
  using sort_key_stable [of "\<lambda>a. parseISODate (date a)" "parseISODate k" xs]
  by (simp add: parseISODate_inj)

lemma sort_by_time_id:
  assumes "sorted (map date xs)"
  shows "sort_key (\<lambda>a. parseISODate (date a)) xs = xs"
  by (rule sort_key_id_if_sorted) (simp only: sorted_parse assms)

lemma sort_entryVisits_sorted_table:
  assumes "sorted (map offsetDays table)"
  shows "sort_key (\<lambda>a. parseISODate (date a)) (map (entryVisit (fixedZone c) t) table) =
           map (entryVisit (fixedZone c) t) table"
proof (rule sort_by_time_id)
  have "map date (map (entryVisit (fixedZone c) t) table) =
          map (\<lambda>v. t div msPerDay + offsetDays v) table"
    by (simp add: date_entryVisit_fixedZone)
  moreover have "sorted (map (\<lambda>v. t div msPerDay + offsetDays v) table)"
    using assms by (induction table) auto
  ultimately show "sorted (map date (map (entryVisit (fixedZone c) t) table))"
    by (simp only:)
qed

lemma KEPI_offsets:
  "map offsetDays KEPI_SCHEDULE =
     [0, 0, 42, 42, 42, 42, 70, 70, 70, 70, 98, 98, 98, 98, 273, 273, 546, 546]"
  by (simp add: KEPI_SCHEDULE_def offsetDays_def)

lemma KEPI_sorted: "sorted (map offsetDays KEPI_SCHEDULE)"
  unfolding KEPI_offsets by simp

lemma list_all_offsets:
  "list_all (inRange zone t) table =
     list_all (\<lambda>k. \<bar>shiftedTime zone t k\<bar> \<le> maxTime) (map offsetDays table)"
  by (simp add: list_all_iff inRange_def)

lemma KEPI_inRange_fixedZone:
  "\<bar>t\<bar> \<le> maxTime \<Longrightarrow>
     list_all (inRange (fixedZone c) t) KEPI_SCHEDULE \<longleftrightarrow> t + 546 * msPerDay \<le> maxTime"
  unfolding list_all_offsets KEPI_offsets
  by (simp add: shiftedTime_fixedZone msPerDay_def maxTime_def) linarith

lemma generateVaccinationSchedule_Some:
  "generateVaccinationSchedule zone (Some t) =
     (if list_all (inRange zone t) KEPI_SCHEDULE
      then Inr (sort_key (\<lambda>a. parseISODate (date a)) (map (entryVisit zone t) KEPI_SCHEDULE))
      else Inl RangeError)"
  by (simp add: generateVaccinationSchedule_def generateScheduleFrom_Some)

lemma generateVaccinationSchedule_fixedZone:
  "generateVaccinationSchedule (fixedZone c) (Some t) =
     (if list_all (inRange (fixedZone c) t) KEPI_SCHEDULE
      then Inr (map (entryVisit (fixedZone c) t) KEPI_SCHEDULE)
      else Inl RangeError)"
  by (simp add: generateVaccinationSchedule_Some sort_entryVisits_sorted_table [OF KEPI_sorted])

lemma KEPI_inRange_2024: "list_all (inRange zoneUTC 1704067200000) KEPI_SCHEDULE"
  by (simp add: zoneUTC_def KEPI_inRange_fixedZone maxTime_def msPerDay_def)

lemma KEPI_front:
  "KEPI_SCHEDULE =
     \<lparr>Vaccine.name = ''BCG'', Vaccine.dose = 1, ageWeeks = 0, ageDays = Some 0,
       Vaccine.method' = ''0.05ml intradermal injection, left forearm'',
       Vaccine.purpose = ''Protects against tuberculosis (TB)''\<rparr> #
     \<lparr>Vaccine.name = ''OPV'', Vaccine.dose = 1, ageWeeks = 0, ageDays = Some 0,
       Vaccine.method' = ''2 oral drops'',
       Vaccine.purpose = ''Protects against polio''\<rparr> #
     drop 2 KEPI_SCHEDULE"
  by (simp add: KEPI_SCHEDULE_def)

lemma day_2024: "(1704067200000::int) div msPerDay = 19723"
  by (simp add: msPerDay_def)

lemma generate_2024:
  "generateVaccinationSchedule zoneUTC (Some 1704067200000) =
     Inr (map (entryVisit zoneUTC 1704067200000) KEPI_SCHEDULE)"
  using KEPI_inRange_2024 by (simp add: zoneUTC_def generateVaccinationSchedule_fixedZone)

lemma schedule_2024:
  "map (entryVisit zoneUTC 1704067200000) KEPI_SCHEDULE =
     \<lparr>VaccinationScheduleItem.name = ''BCG'', VaccinationScheduleItem.dose = 1, date = 19723,
       ageAtVaccination = ''At birth'',
       VaccinationScheduleItem.method' = ''0.05ml intradermal injection, left forearm'',
       VaccinationScheduleItem.purpose = ''Protects against tuberculosis (TB)''\<rparr> #
     \<lparr>VaccinationScheduleItem.name = ''OPV'', VaccinationScheduleItem.dose = 1, date = 19723,
       ageAtVaccination = ''At birth'',
       VaccinationScheduleItem.method' = ''2 oral drops'',
       VaccinationScheduleItem.purpose = ''Protects against polio''\<rparr> #
     map (entryVisit zoneUTC 1704067200000) (drop 2 KEPI_SCHEDULE)"
  by (subst KEPI_front)
    (simp add: zoneUTC_def entryVisit_fixedZone scheduleItem_def offsetDays_def day_2024)

text \<open>
  In a process whose time zone has a fixed offset from UTC, every visit is dated the
  anchor's UTC day plus \<open>7 * ageWeeks\<close> days of its entry, or plus \<^verbatim>\<open>ageDays\<close> days when the
  entry has them.
\<close>

lemma offset_exact_in_fixed_zone:
  assumes "list_all (inRange (fixedZone c) t) table"
  shows "\<exists>schedule. generateScheduleFrom (fixedZone c) table (Some t) = Inr schedule \<and>
           mset (map (\<lambda>a. (VaccinationScheduleItem.name a, VaccinationScheduleItem.dose a, date a))
                   schedule) =
           mset (map (\<lambda>v. (Vaccine.name v, Vaccine.dose v,
                         t div msPerDay +
                           (case ageDays v of None \<Rightarrow> 7 * ageWeeks v | Some d \<Rightarrow> d))) table)"
proof -
  let ?key = "\<lambda>a. (VaccinationScheduleItem.name a, VaccinationScheduleItem.dose a, date a)"
  let ?schedule = "sort_key (\<lambda>a. parseISODate (date a)) (map (entryVisit (fixedZone c) t) table)"
  have g: "generateScheduleFrom (fixedZone c) table (Some t) = Inr ?schedule"
    using assms by (simp add: generateScheduleFrom_Some)
  have k: "?key (entryVisit (fixedZone c) t v) =
      (Vaccine.name v, Vaccine.dose v,
       t div msPerDay + (case ageDays v of None \<Rightarrow> 7 * ageWeeks v | Some d \<Rightarrow> d))" for v
    by (simp add: entryVisit_fixedZone scheduleItem_def offsetDays_def mult.commute
        split: option.split)
  have "mset (map ?key ?schedule) = mset (map ?key (map (entryVisit (fixedZone c) t) table))"
    by (simp only: mset_map mset_sort)
  also have "map ?key (map (entryVisit (fixedZone c) t) table) =
      map (\<lambda>v. ?key (entryVisit (fixedZone c) t v)) table"
    by (simp add: comp_def)
  finally have "mset (map ?key ?schedule) =
      mset (map (\<lambda>v. (Vaccine.name v, Vaccine.dose v,
                         t div msPerDay +
                           (case ageDays v of None \<Rightarrow> 7 * ageWeeks v | Some d \<Rightarrow> d))) table)"
    by (simp only: k)
  with g show ?thesis by (intro exI conjI)
qed

lemma shifted_NewYork:
  "map (shiftedTime zoneNewYork 1706745600000)
     [0, 0, 42, 42, 42, 42, 70, 70, 70, 70, 98, 98, 98, 98, 273, 273, 546, 546] =
   [1706745600000, 1706745600000, 1710370800000, 1710370800000, 1710370800000, 1710370800000,
    1712790000000, 1712790000000, 1712790000000, 1712790000000,
    1715209200000, 1715209200000, 1715209200000, 1715209200000,
    1730329200000, 1730329200000, 1753916400000, 1753916400000]"
  by (simp add: shiftedTime_def UTC_def LocalTime_def zoneNewYork_def msPerDay_def)

lemma KEPI_inRange_NewYork: "list_all (inRange zoneNewYork 1706745600000) KEPI_SCHEDULE"
proof -
  have "list_all (\<lambda>x. \<bar>x\<bar> \<le> maxTime)
      (map (shiftedTime zoneNewYork 1706745600000) (map offsetDays KEPI_SCHEDULE))"
    unfolding KEPI_offsets shifted_NewYork by (simp add: maxTime_def)
  then have "list_all ((\<lambda>x. \<bar>x\<bar> \<le> maxTime) \<circ> shiftedTime zoneNewYork 1706745600000)
      (map offsetDays KEPI_SCHEDULE)"
    by (simp only: list.pred_map)
  then show ?thesis unfolding list_all_offsets by (simp only: comp_def)
qed

lemma name_entryVisit:
  "VaccinationScheduleItem.name (entryVisit zone t v) = Vaccine.name v"
  "VaccinationScheduleItem.dose (entryVisit zone t v) = Vaccine.dose v"
  by (simp_all add: entryVisit_def scheduleItem_def)

lemma KEPI_pentavalent_1:
  "filter (\<lambda>v. Vaccine.name v = ''Pentavalent'' \<and> Vaccine.dose v = 1) KEPI_SCHEDULE =
     [KEPI_SCHEDULE ! 2]"
  by (simp add: KEPI_SCHEDULE_def)

lemma KEPI_2: "ageWeeks (KEPI_SCHEDULE ! 2) = 6" "ageDays (KEPI_SCHEDULE ! 2) = None"
  "offsetDays (KEPI_SCHEDULE ! 2) = 42"
  by (simp_all add: KEPI_SCHEDULE_def offsetDays_def)

text \<open>
  C4. The claim: for every valid anchor date and every table entry with \<open>ageWeeks = w\<close> and
  no \<^verbatim>\<open>ageDays\<close>, the computed date is the anchor date plus exactly \<open>7 * w\<close> days. The source
  parses the anchor as midnight UTC and prints the UTC day, but moves the date with
  \<^verbatim>\<open>getDate\<close> and \<^verbatim>\<open>setDate\<close>, which keep the local wall-clock time. In a process running
  in America/New_York, for the anchor 2024-02-01 (day 19754): the entry Pentavalent dose
  1 has \<open>ageWeeks = 6\<close> and no \<^verbatim>\<open>ageDays\<close>; local time is 19:00 on 31 January, 42 days later
  it is 19:00 on 13 March, in daylight saving time, which is 23:00 UTC on 13 March; the
  visit is dated 2024-03-13 (day 19795), 41 days after the anchor date, where the anchor
  date plus 42 days is 2024-03-14 (day 19796).
\<close>

theorem six_week_visit_a_day_early:
  "(\<exists>schedule. generateVaccinationSchedule zoneNewYork (Some 1706745600000) = Inr schedule \<and>
      map date (filter (\<lambda>item. VaccinationScheduleItem.name item = ''Pentavalent'' \<and>
                                VaccinationScheduleItem.dose item = 1) schedule) = [19795]) \<and>
   map (\<lambda>v. (ageWeeks v, ageDays v))
     (filter (\<lambda>v. Vaccine.name v = ''Pentavalent'' \<and> Vaccine.dose v = 1) KEPI_SCHEDULE) =
     [(6, None)] \<and>
   (1706745600000::int) div msPerDay + 7 * 6 = 19796"
proof -
  let ?P = "\<lambda>item. VaccinationScheduleItem.name item = ''Pentavalent'' \<and>
                    VaccinationScheduleItem.dose item = 1"
  let ?schedule = "sort_key (\<lambda>a. parseISODate (date a))
                     (map (entryVisit zoneNewYork 1706745600000) KEPI_SCHEDULE)"
  have g: "generateVaccinationSchedule zoneNewYork (Some 1706745600000) = Inr ?schedule"
    using KEPI_inRange_NewYork by (simp add: generateVaccinationSchedule_Some)
  have "filter ?P ?schedule =
      sort_key (\<lambda>a. parseISODate (date a))
        (filter ?P (map (entryVisit zoneNewYork 1706745600000) KEPI_SCHEDULE))"
    by (rule filter_sort)
  also have "filter ?P (map (entryVisit zoneNewYork 1706745600000) KEPI_SCHEDULE) =
      map (entryVisit zoneNewYork 1706745600000)
        (filter (\<lambda>v. Vaccine.name v = ''Pentavalent'' \<and> Vaccine.dose v = 1) KEPI_SCHEDULE)"
    by (simp add: filter_map comp_def name_entryVisit)
  also have "\<dots> = [entryVisit zoneNewYork 1706745600000 (KEPI_SCHEDULE ! 2)]"
    by (simp only: KEPI_pentavalent_1 list.map)
  finally have "filter ?P ?schedule = [entryVisit zoneNewYork 1706745600000 (KEPI_SCHEDULE ! 2)]"
    by simp
  moreover have "date (entryVisit zoneNewYork 1706745600000 (KEPI_SCHEDULE ! 2)) = 19795"
    by (simp add: date_entryVisit KEPI_2 shiftedTime_def UTC_def LocalTime_def
        zoneNewYork_def msPerDay_def)
  ultimately have d: "map date (filter ?P ?schedule) = [19795]" by simp
  have e: "map (\<lambda>v. (ageWeeks v, ageDays v))
     (filter (\<lambda>v. Vaccine.name v = ''Pentavalent'' \<and> Vaccine.dose v = 1) KEPI_SCHEDULE) =
     [(6, None)]"
    by (simp only: KEPI_pentavalent_1 list.map KEPI_2)
  have f: "(1706745600000::int) div msPerDay + 7 * 6 = 19796" by (simp add: msPerDay_def)
  from g d have "\<exists>schedule. generateVaccinationSchedule zoneNewYork (Some 1706745600000) = Inr schedule \<and>
      map date (filter ?P schedule) = [19795]" by (intro exI conjI)
  with e f show ?thesis by (intro conjI)
qed

text \<open>
  C5. For every anchor date that parses and from which the call returns, in every time
  zone, the schedule holds exactly one visit per table entry (it is a rearrangement of
  the visits pushed, and as long as the table), it is sorted non-decreasing by date, and
  the visits sharing a date are, in order, the visits of the table entries with that
  date in table order.
\<close>

theorem schedule_ordering:
  assumes "list_all (inRange zone t) table"
  shows "\<exists>schedule. generateScheduleFrom zone table (Some t) = Inr schedule \<and>
           mset schedule = mset (map (entryVisit zone t) table) \<and>
           length schedule = length table \<and>
           sorted (map date schedule) \<and>
           (\<forall>k. filter (\<lambda>a. date a = k) schedule =
                 map (entryVisit zone t) (filter (\<lambda>v. date (entryVisit zone t v) = k) table))"
proof -
  let ?schedule = "sort_key (\<lambda>a. parseISODate (date a)) (map (entryVisit zone t) table)"
  have "generateScheduleFrom zone table (Some t) = Inr ?schedule"
    using assms by (simp add: generateScheduleFrom_Some)
  moreover have "mset ?schedule = mset (map (entryVisit zone t) table)" by simp
  moreover have "length ?schedule = length table" by simp
  moreover have "sorted (map date ?schedule)" by (rule sort_by_time_sorted)
  moreover have "\<forall>k. filter (\<lambda>a. date a = k) ?schedule =
                 map (entryVisit zone t) (filter (\<lambda>v. date (entryVisit zone t v) = k) table)"
    by (simp add: sort_by_time_stable filter_map comp_def)
  ultimately show ?thesis by blast
qed

text \<open>
  The theorem at the KEPI table and the birth date 2024-01-01 in UTC: 18 visits, sorted,
  the two dated the day of birth in table order.
\<close>

theorem schedule_ordering_witness:
  "list_all (inRange zoneUTC 1704067200000) KEPI_SCHEDULE \<and>
   (\<exists>schedule. generateVaccinationSchedule zoneUTC (Some 1704067200000) = Inr schedule \<and>
      length schedule = 18 \<and> sorted (map date schedule) \<and>
      map VaccinationScheduleItem.name (filter (\<lambda>a. date a = 19723) schedule) = [''BCG'', ''OPV''])"
proof -
  from schedule_ordering [OF KEPI_inRange_2024]
  obtain schedule where g: "generateScheduleFrom zoneUTC KEPI_SCHEDULE (Some 1704067200000) = Inr schedule"
    and l: "length schedule = length KEPI_SCHEDULE"
    and s: "sorted (map date schedule)"
    and f: "\<forall>k. filter (\<lambda>a. date a = k) schedule =
                 map (entryVisit zoneUTC 1704067200000)
                   (filter (\<lambda>v. date (entryVisit zoneUTC 1704067200000 v) = k) KEPI_SCHEDULE)"
    by (elim exE conjE)
  have "length KEPI_SCHEDULE = 18" by (simp add: KEPI_SCHEDULE_def)
  with l have l18: "length schedule = 18" by simp
  have "filter (\<lambda>v. date (entryVisit zoneUTC 1704067200000 v) = 19723) KEPI_SCHEDULE =
      take 2 KEPI_SCHEDULE"
    by (simp add: zoneUTC_def date_entryVisit_fixedZone day_2024 KEPI_SCHEDULE_def offsetDays_def)
  with f have "filter (\<lambda>a. date a = 19723) schedule =
      map (entryVisit zoneUTC 1704067200000) (take 2 KEPI_SCHEDULE)" by simp
  then have n: "map VaccinationScheduleItem.name (filter (\<lambda>a. date a = 19723) schedule) =
      [''BCG'', ''OPV'']"
    by (simp add: KEPI_SCHEDULE_def entryVisit_def scheduleItem_def)
  from g have "generateVaccinationSchedule zoneUTC (Some 1704067200000) = Inr schedule"
    by (simp only: generateVaccinationSchedule_def)
  with l18 s n KEPI_inRange_2024 show ?thesis by (intro exI conjI)
qed

text \<open>
  C6, as stated: the call fails when the anchor date does not parse, and succeeds for
  every anchor date that parses. The second half fails at the last date a \<^verbatim>\<open>Date\<close> can
  hold, \<^verbatim>\<open>+275760-09-13\<close> (time value \<open>8.64e15\<close>), in UTC and in America/New_York alike: the
  string parses, the two entries at birth are dated, and \<^verbatim>\<open>setDate\<close> for the entry at 6
  weeks leaves the range of time values, so \<^verbatim>\<open>toISOString\<close> throws.
\<close>

theorem generate_out_of_range:
  "validDate (Some 8640000000000000) \<and>
   generateVaccinationSchedule zoneUTC (Some 8640000000000000) = Inl RangeError \<and>
   generateVaccinationSchedule zoneNewYork (Some 8640000000000000) = Inl RangeError"
proof -
  have "list_ex (\<lambda>k. \<not> \<bar>shiftedTime zoneNewYork 8640000000000000 k\<bar> \<le> maxTime)
          (map offsetDays KEPI_SCHEDULE)"
    unfolding KEPI_offsets
    by (simp add: shiftedTime_def UTC_def LocalTime_def zoneNewYork_def msPerDay_def maxTime_def)
  then have "\<not> list_all (inRange zoneNewYork 8640000000000000) KEPI_SCHEDULE"
    unfolding list_all_offsets by (simp add: list_ex_iff list_all_iff)
  then have "generateVaccinationSchedule zoneNewYork (Some 8640000000000000) = Inl RangeError"
    by (simp add: generateVaccinationSchedule_Some)
  then show ?thesis
    by (simp add: validDate_def maxTime_def zoneUTC_def generateVaccinationSchedule_fixedZone
        KEPI_inRange_fixedZone msPerDay_def)
qed

lemma KEPI_all_iff:
  "list_all (inRange zone t) KEPI_SCHEDULE =
     list_all (\<lambda>vaccine. \<bar>shiftedTime zone t (offsetDays vaccine)\<bar> \<le> maxTime) KEPI_SCHEDULE"
  by (simp add: list_all_iff inRange_def)

lemma KEPI_ex_iff:
  "(\<not> list_all (inRange zone t) KEPI_SCHEDULE) =
     list_ex (\<lambda>vaccine. maxTime < \<bar>shiftedTime zone t (offsetDays vaccine)\<bar>) KEPI_SCHEDULE"
  by (auto simp add: list_all_iff list_ex_iff inRange_def not_le)

text \<open>
  C6, amended. For every value \<^verbatim>\<open>new Date(dateOfBirth)\<close> can have and every time zone of the
  process, the call fails (with the \<^verbatim>\<open>RangeError\<close> of \<^verbatim>\<open>toISOString\<close>) exactly when the anchor
  date does not parse, or parses and, for some table entry, the time value \<^verbatim>\<open>setDate\<close>
  computes (the local wall-clock time moved by the entry's offset in days, converted to
  UTC) lies outside the range of time values; for every other anchor date it returns a
  schedule. In a time zone with a fixed offset from UTC the second condition is that
  the anchor is less than 546 days (78 weeks, the largest offset of the table) before the
  end of the range. With an empty table the loop body never runs and the result is the
  empty schedule.
\<close>

theorem generate_errors:
  assumes "validDate dateOfBirth"
  shows "((generateVaccinationSchedule zone dateOfBirth = Inl RangeError) =
            (dateOfBirth = None \<or>
             (\<exists>t. dateOfBirth = Some t \<and>
                  list_ex (\<lambda>vaccine. maxTime < \<bar>shiftedTime zone t (offsetDays vaccine)\<bar>)
                    KEPI_SCHEDULE))) \<and>
         ((\<exists>schedule. generateVaccinationSchedule zone dateOfBirth = Inr schedule) =
            (\<exists>t. dateOfBirth = Some t \<and>
                 list_all (\<lambda>vaccine. \<bar>shiftedTime zone t (offsetDays vaccine)\<bar> \<le> maxTime)
                   KEPI_SCHEDULE)) \<and>
         ((generateVaccinationSchedule (fixedZone c) dateOfBirth = Inl RangeError) =
            (dateOfBirth = None \<or>
             (\<exists>t. dateOfBirth = Some t \<and> maxTime < t + 546 * msPerDay))) \<and>
         ((\<exists>schedule. generateVaccinationSchedule (fixedZone c) dateOfBirth = Inr schedule) =
            (\<exists>t. dateOfBirth = Some t \<and> t + 546 * msPerDay \<le> maxTime)) \<and>
         generateScheduleFrom zone [] dateOfBirth = Inr []"
proof (cases dateOfBirth)
  case None
  have n: "generateVaccinationSchedule z None = Inl RangeError" for z
    by (simp add: generateVaccinationSchedule_def generateScheduleFrom_None KEPI_SCHEDULE_def)
  have "generateScheduleFrom zone [] dateOfBirth = Inr []"
    by (simp add: generateScheduleFrom_def)
  with None n show ?thesis by simp
next
  case (Some t)
  with assms have r: "\<bar>t\<bar> \<le> maxTime" by (simp add: validDate_def)
  have a: "(generateVaccinationSchedule zone (Some t) = Inl RangeError) =
      list_ex (\<lambda>vaccine. maxTime < \<bar>shiftedTime zone t (offsetDays vaccine)\<bar>) KEPI_SCHEDULE"
    by (simp add: generateVaccinationSchedule_Some KEPI_ex_iff [symmetric])
  have b: "(\<exists>schedule. generateVaccinationSchedule zone (Some t) = Inr schedule) =
      list_all (\<lambda>vaccine. \<bar>shiftedTime zone t (offsetDays vaccine)\<bar> \<le> maxTime) KEPI_SCHEDULE"
    by (simp add: generateVaccinationSchedule_Some KEPI_all_iff [symmetric])
  have c: "(generateVaccinationSchedule (fixedZone c) (Some t) = Inl RangeError) =
      (maxTime < t + 546 * msPerDay)"
    using r by (simp add: generateVaccinationSchedule_fixedZone KEPI_inRange_fixedZone)
  have d: "(\<exists>schedule. generateVaccinationSchedule (fixedZone c) (Some t) = Inr schedule) =
      (t + 546 * msPerDay \<le> maxTime)"
    using r by (simp add: generateVaccinationSchedule_fixedZone KEPI_inRange_fixedZone)
  have e: "generateScheduleFrom zone [] dateOfBirth = Inr []"
    by (simp add: generateScheduleFrom_def)
  from a b c d e show ?thesis unfolding Some by simp
qed

text \<open>
  The theorem at an anchor that does not parse, and at 2024-01-01 in Africa/Nairobi.
\<close>

theorem generate_errors_witness:
  "validDate None \<and> generateVaccinationSchedule zoneNewYork None = Inl RangeError \<and>
   validDate (Some 1704067200000) \<and>
   (\<exists>schedule. generateVaccinationSchedule (fixedZone 10800000) (Some 1704067200000) = Inr schedule)"
proof -
  have v0: "validDate None" by (simp add: validDate_def)
  have v1: "validDate (Some 1704067200000)" by (simp add: validDate_def maxTime_def)
  from generate_errors [OF v0, of zoneNewYork, THEN conjunct1]
  have a: "generateVaccinationSchedule zoneNewYork None = Inl RangeError" by simp
  have "\<exists>t. Some (1704067200000::int) = Some t \<and> t + 546 * msPerDay \<le> maxTime"
    by (simp add: msPerDay_def maxTime_def)
  with generate_errors [OF v1, of zoneUTC 10800000,
      THEN conjunct2, THEN conjunct2, THEN conjunct2, THEN conjunct1]
  have b: "\<exists>schedule. generateVaccinationSchedule (fixedZone 10800000) (Some 1704067200000) =
      Inr schedule"
    by (rule iffD2)
  from v0 a v1 b show ?thesis by (intro conjI)
qed





section \<open>The next pending vaccination\<close>

text \<open>\<^const>\<open>isCompleted\<close> reads only the set of keys of the completion records.\<close>

lemma completionKey_eq:
  "completionKey c = (n, d, st) \<longleftrightarrow>
     Vaccination.vaccineName c = n \<and> Vaccination.doseNumber c = d \<and> Vaccination.status c = st"
  by (simp add: completionKey_def)

lemma isCompleted_key:
  "isCompleted completedVaccinations scheduledVaccine \<longleftrightarrow>
     (VaccinationScheduleItem.name scheduledVaccine, VaccinationScheduleItem.dose scheduledVaccine,
      ''administered'') \<in> completionKey ` set completedVaccinations"
proof -
  have "(VaccinationScheduleItem.name scheduledVaccine, VaccinationScheduleItem.dose scheduledVaccine,
      ''administered'') \<in> completionKey ` set completedVaccinations \<longleftrightarrow>
    (\<exists>c \<in> set completedVaccinations. completionKey c =
       (VaccinationScheduleItem.name scheduledVaccine, VaccinationScheduleItem.dose scheduledVaccine,
        ''administered''))"
    by (rule iffI) (erule imageE, erule bexI [rotated], erule sym, erule bexE, erule rev_image_eqI, erule sym)
  then show ?thesis
    unfolding isCompleted_def list_ex_iff completionKey_eq by (rule sym)
qed

lemma isCompleted_cong:
  assumes "completionKey ` set cs = completionKey ` set cs'"
  shows "isCompleted cs = isCompleted cs'"
  using assms by (simp add: fun_eq_iff isCompleted_key)

lemma findNextPending_cong:
  assumes "isCompleted cs = isCompleted cs'"
  shows "findNextPending schedule cs today = findNextPending schedule cs' today"
  using assms by (induction schedule) simp_all

lemma getNextVaccination_cong:
  assumes "completionKey ` set cs = completionKey ` set cs'"
  shows "getNextVaccination zone dateOfBirth cs today = getNextVaccination zone dateOfBirth cs' today"
  using findNextPending_cong [OF isCompleted_cong [OF assms]]
  by (simp add: getNextVaccination_def split: sum.split)

text \<open>
  C8. For every birth date, in every time zone, two completion lists that are
  permutations of each other
  give the same next-pending result; so do two lists whose records agree, position by
  position, on name, dose number and status, whatever dates the records store.
\<close>

theorem completion_independence:
  "(mset cs = mset cs' \<longrightarrow>
      getNextVaccination zone dateOfBirth cs today = getNextVaccination zone dateOfBirth cs' today) \<and>
   (map completionKey cs = map completionKey cs' \<longrightarrow>
      getNextVaccination zone dateOfBirth cs today = getNextVaccination zone dateOfBirth cs' today)"
proof (intro conjI impI)
  assume "mset cs = mset cs'"
  then have "set cs = set cs'" by (rule mset_eq_setD)
  then have "completionKey ` set cs = completionKey ` set cs'" by simp
  then show "getNextVaccination zone dateOfBirth cs today = getNextVaccination zone dateOfBirth cs' today"
    by (rule getNextVaccination_cong)
next
  assume "map completionKey cs = map completionKey cs'"
  then have "set (map completionKey cs) = set (map completionKey cs')" by simp
  then have "completionKey ` set cs = completionKey ` set cs'" by simp
  then show "getNextVaccination zone dateOfBirth cs today = getNextVaccination zone dateOfBirth cs' today"
    by (rule getNextVaccination_cong)
qed

theorem completion_independence_witness:
  "mset [\<lparr>Vaccination.vaccineName = ''BCG'', Vaccination.doseNumber = 1,
           Vaccination.scheduledDate = ''2024-01-01'',
           Vaccination.administeredDate = Some ''2024-01-02'',
           Vaccination.status = ''administered''\<rparr>,
         \<lparr>Vaccination.vaccineName = ''OPV'', Vaccination.doseNumber = 1,
           Vaccination.scheduledDate = ''2024-01-01'',
           Vaccination.administeredDate = None,
           Vaccination.status = ''scheduled''\<rparr>] =
   mset [\<lparr>Vaccination.vaccineName = ''OPV'', Vaccination.doseNumber = 1,
           Vaccination.scheduledDate = ''2024-01-01'',
           Vaccination.administeredDate = None,
           Vaccination.status = ''scheduled''\<rparr>,
         \<lparr>Vaccination.vaccineName = ''BCG'', Vaccination.doseNumber = 1,
           Vaccination.scheduledDate = ''2024-01-01'',
           Vaccination.administeredDate = Some ''2024-01-02'',
           Vaccination.status = ''administered''\<rparr>] \<and>
   getNextVaccination zoneUTC (Some 1704067200000)
     [\<lparr>Vaccination.vaccineName = ''BCG'', Vaccination.doseNumber = 1,
           Vaccination.scheduledDate = ''2024-01-01'',
           Vaccination.administeredDate = Some ''2024-01-02'',
           Vaccination.status = ''administered''\<rparr>,
         \<lparr>Vaccination.vaccineName = ''OPV'', Vaccination.doseNumber = 1,
           Vaccination.scheduledDate = ''2024-01-01'',
           Vaccination.administeredDate = None,
           Vaccination.status = ''scheduled''\<rparr>] 1704110400000 =
   getNextVaccination zoneUTC (Some 1704067200000)
     [\<lparr>Vaccination.vaccineName = ''OPV'', Vaccination.doseNumber = 1,
           Vaccination.scheduledDate = ''2024-01-01'',
           Vaccination.administeredDate = None,
           Vaccination.status = ''scheduled''\<rparr>,
         \<lparr>Vaccination.vaccineName = ''BCG'', Vaccination.doseNumber = 1,
           Vaccination.scheduledDate = ''2024-01-01'',
           Vaccination.administeredDate = Some ''2024-01-02'',
           Vaccination.status = ''administered''\<rparr>] 1704110400000 \<and>
   map completionKey
     [\<lparr>Vaccination.vaccineName = ''BCG'', Vaccination.doseNumber = 1,
           Vaccination.scheduledDate = ''2024-01-01'',
           Vaccination.administeredDate = Some ''2024-01-02'',
           Vaccination.status = ''administered''\<rparr>] =
   map completionKey
     [\<lparr>Vaccination.vaccineName = ''BCG'', Vaccination.doseNumber = 1,
           Vaccination.scheduledDate = ''2024-01-01'',
           Vaccination.administeredDate = Some ''2024-03-15'',
           Vaccination.status = ''administered''\<rparr>] \<and>
   getNextVaccination zoneUTC (Some 1704067200000)
     [\<lparr>Vaccination.vaccineName = ''BCG'', Vaccination.doseNumber = 1,
           Vaccination.scheduledDate = ''2024-01-01'',
           Vaccination.administeredDate = Some ''2024-01-02'',
           Vaccination.status = ''administered''\<rparr>] 1704110400000 =
   getNextVaccination zoneUTC (Some 1704067200000)
     [\<lparr>Vaccination.vaccineName = ''BCG'', Vaccination.doseNumber = 1,
           Vaccination.scheduledDate = ''2024-01-01'',
           Vaccination.administeredDate = Some ''2024-03-15'',
           Vaccination.status = ''administered''\<rparr>] 1704110400000"
proof -
  define a where "a = \<lparr>Vaccination.vaccineName = ''BCG'', Vaccination.doseNumber = 1,
           Vaccination.scheduledDate = ''2024-01-01'',
           Vaccination.administeredDate = Some ''2024-01-02'',
           Vaccination.status = ''administered''\<rparr>"
  define a' where "a' = \<lparr>Vaccination.vaccineName = ''BCG'', Vaccination.doseNumber = 1,
           Vaccination.scheduledDate = ''2024-01-01'',
           Vaccination.administeredDate = Some ''2024-03-15'',
           Vaccination.status = ''administered''\<rparr>"
  define b where "b = \<lparr>Vaccination.vaccineName = ''OPV'', Vaccination.doseNumber = 1,
           Vaccination.scheduledDate = ''2024-01-01'',
           Vaccination.administeredDate = None,
           Vaccination.status = ''scheduled''\<rparr>"
  have p: "mset [a, b] = mset [b, a]" by simp
  have k: "map completionKey [a] = map completionKey [a']"
    by (simp add: a_def a'_def completionKey_def)
  from completion_independence [of "[a, b]" "[b, a]" zoneUTC "Some 1704067200000" 1704110400000,
      THEN conjunct1, rule_format, OF p]
  have r1: "getNextVaccination zoneUTC (Some 1704067200000) [a, b] 1704110400000 =
            getNextVaccination zoneUTC (Some 1704067200000) [b, a] 1704110400000" .
  from completion_independence [of "[a]" "[a']" zoneUTC "Some 1704067200000" 1704110400000,
      THEN conjunct2, rule_format, OF k]
  have r2: "getNextVaccination zoneUTC (Some 1704067200000) [a] 1704110400000 =
            getNextVaccination zoneUTC (Some 1704067200000) [a'] 1704110400000" .
  from p r1 k r2 show ?thesis unfolding a_def a'_def b_def by (intro conjI)
qed

text \<open>The loop returns the first item that is not completed, if there is one.\<close>

lemma findNextPending_all_completed:
  "findNextPending schedule cs today = None \<longleftrightarrow> list_all (isCompleted cs) schedule"
  by (induction schedule) simp_all

lemma findNextPending_first:
  assumes "list_all (isCompleted cs) pre" and "\<not> isCompleted cs s"
  shows "findNextPending (pre @ s # post) cs today = Some (nextVaccination s today)"
  using assms by (induction pre) simp_all

lemma findNextPending_split:
  assumes "findNextPending schedule cs today = Some n"
  shows "\<exists>pre s post. schedule = pre @ s # post \<and> list_all (isCompleted cs) pre \<and>
           \<not> isCompleted cs s \<and> n = nextVaccination s today"
  using assms
proof (induction schedule)
  case Nil
  then show ?case by simp
next
  case (Cons a schedule)
  show ?case
  proof (cases "isCompleted cs a")
    case False
    with Cons.prems have "n = nextVaccination a today" by simp
    with False have "a # schedule = [] @ a # schedule \<and> list_all (isCompleted cs) [] \<and>
           \<not> isCompleted cs a \<and> n = nextVaccination a today" by simp
    then show ?thesis by blast
  next
    case True
    with Cons.prems have "findNextPending schedule cs today = Some n" by simp
    from Cons.IH [OF this] obtain pre s post where
      "schedule = pre @ s # post" "list_all (isCompleted cs) pre" "\<not> isCompleted cs s"
      "n = nextVaccination s today" by blast
    with True have "a # schedule = (a # pre) @ s # post \<and> list_all (isCompleted cs) (a # pre) \<and>
           \<not> isCompleted cs s \<and> n = nextVaccination s today" by simp
    then show ?thesis by blast
  qed
qed

text \<open>
  Midnight UTC of a day compared with an instant: strictly before it on every earlier
  day and, on the day itself, at every instant but midnight.
\<close>

lemma midnight_before_iff:
  "parseISODate day < today \<longleftrightarrow>
     day < today div msPerDay \<or> (day = today div msPerDay \<and> today mod msPerDay \<noteq> 0)"
proof -
  define q where "q = today div msPerDay"
  define r where "r = today mod msPerDay"
  have e: "today = q * msPerDay + r" unfolding q_def r_def by simp
  have r0: "0 \<le> r" and rb: "r < msPerDay" using msPerDay_pos unfolding r_def by simp_all
  consider "day < q" | "day = q" | "q < day" by linarith
  then show ?thesis
  proof cases
    case 1
    then have "day + 1 \<le> q" by simp
    then have "(day + 1) * msPerDay \<le> q * msPerDay"
      using msPerDay_pos by (simp only: mult_right_mono less_imp_le)
    then have "day * msPerDay + msPerDay \<le> q * msPerDay" by (simp add: algebra_simps)
    with 1 e r0 msPerDay_pos show ?thesis
      unfolding parseISODate_def q_def [symmetric] r_def [symmetric] by simp
  next
    case 2
    with e r0 show ?thesis
      unfolding parseISODate_def q_def [symmetric] r_def [symmetric] by auto
  next
    case 3
    then have "q + 1 \<le> day" by simp
    then have "(q + 1) * msPerDay \<le> day * msPerDay"
      using msPerDay_pos by (simp only: mult_right_mono less_imp_le)
    then have "q * msPerDay + msPerDay \<le> day * msPerDay" by (simp add: algebra_simps)
    with 3 e rb show ?thesis
      unfolding parseISODate_def q_def [symmetric] r_def [symmetric] by simp
  qed
qed

lemma midnight_le_iff: "parseISODate day \<le> today \<longleftrightarrow> day \<le> today div msPerDay"
proof -
  define q where "q = today div msPerDay"
  define r where "r = today mod msPerDay"
  have e: "today = q * msPerDay + r" unfolding q_def r_def by simp
  have r0: "0 \<le> r" and rb: "r < msPerDay" using msPerDay_pos unfolding r_def by simp_all
  show ?thesis
  proof (cases "day \<le> q")
    case True
    then have "day * msPerDay \<le> q * msPerDay"
      using msPerDay_pos by (simp only: mult_right_mono less_imp_le)
    with True e r0 show ?thesis
      unfolding parseISODate_def q_def [symmetric] by simp
  next
    case False
    then have "q + 1 \<le> day" by simp
    then have "(q + 1) * msPerDay \<le> day * msPerDay"
      using msPerDay_pos by (simp only: mult_right_mono less_imp_le)
    then have "q * msPerDay + msPerDay \<le> day * msPerDay" by (simp add: algebra_simps)
    with False e rb show ?thesis
      unfolding parseISODate_def q_def [symmetric] by simp
  qed
qed

lemma status_nextVaccination:
  "NextVaccination.status (nextVaccination s today) =
     (if parseISODate (date s) < today then ''overdue'' else ''scheduled'')"
  by (simp add: nextVaccination_def Let_def)

lemma fields_nextVaccination:
  "NextVaccination.vaccineName (nextVaccination s today) = VaccinationScheduleItem.name s"
  "NextVaccination.doseNumber (nextVaccination s today) = VaccinationScheduleItem.dose s"
  "NextVaccination.scheduledDate (nextVaccination s today) = date s"
  "NextVaccination.method' (nextVaccination s today) = VaccinationScheduleItem.method' s"
  "NextVaccination.purpose (nextVaccination s today) = VaccinationScheduleItem.purpose s"
  by (simp_all add: nextVaccination_def Let_def)

text \<open>
  C2, as stated: an item whose date equals today is tagged \<open>scheduled\<close>. For a child born
  on 2024-01-01 with no completion records, at 2024-01-01T12:00:00Z, in UTC: the first item (BCG)
  is dated 2024-01-01, which is today, and the source tags it \<open>overdue\<close>, since
  \<^verbatim>\<open>new Date('2024-01-01')\<close> is midnight and midnight is before noon.
\<close>

theorem same_day_is_overdue:
  "getNextVaccination zoneUTC (Some 1704067200000) [] 1704110400000 =
     Inr (Some \<lparr>NextVaccination.vaccineName = ''BCG'', NextVaccination.doseNumber = 1,
                NextVaccination.scheduledDate = 19723, NextVaccination.status = ''overdue'',
                NextVaccination.method' = ''0.05ml intradermal injection, left forearm'',
                NextVaccination.purpose = ''Protects against tuberculosis (TB)''\<rparr>) \<and>
   (1704110400000::int) div msPerDay = 19723"
  by (simp add: getNextVaccination_def generate_2024 schedule_2024 isCompleted_def
      nextVaccination_def parseISODate_def msPerDay_def)

text \<open>
  C2, amended. For every birth date from which the schedule is generated (in whatever
  time zone), every completion list and every clock value \<open>today\<close>: the lookup returns none exactly when
  every item of the schedule has a completion record matching it on name and dose number
  with status \<open>administered\<close>; otherwise it returns the first item of the sorted schedule
  without such a record, tagged \<open>overdue\<close> exactly when midnight UTC at the start of its
  date is strictly before the instant \<open>today\<close> (its date is before today's UTC date, or is
  today's UTC date and the clock is past midnight), and \<open>scheduled\<close> otherwise.
\<close>

theorem next_pending:
  assumes "generateVaccinationSchedule zone dateOfBirth = Inr schedule"
  shows "(getNextVaccination zone dateOfBirth cs today = Inr None \<longleftrightarrow>
            list_all (isCompleted cs) schedule) \<and>
         (\<forall>pre s post.
            schedule = pre @ s # post \<and> list_all (isCompleted cs) pre \<and> \<not> isCompleted cs s \<longrightarrow>
            (\<exists>n. getNextVaccination zone dateOfBirth cs today = Inr (Some n) \<and>
                 NextVaccination.vaccineName n = VaccinationScheduleItem.name s \<and>
                 NextVaccination.doseNumber n = VaccinationScheduleItem.dose s \<and>
                 NextVaccination.scheduledDate n = date s \<and>
                 NextVaccination.method' n = VaccinationScheduleItem.method' s \<and>
                 NextVaccination.purpose n = VaccinationScheduleItem.purpose s \<and>
                 NextVaccination.status n =
                   (if date s < today div msPerDay \<or>
                       (date s = today div msPerDay \<and> today mod msPerDay \<noteq> 0)
                    then ''overdue'' else ''scheduled'')))"
proof -
  have g: "getNextVaccination zone dateOfBirth cs today = Inr (findNextPending schedule cs today)"
    using assms by (simp add: getNextVaccination_def)
  have a: "getNextVaccination zone dateOfBirth cs today = Inr None \<longleftrightarrow>
            list_all (isCompleted cs) schedule"
    unfolding g by (simp add: findNextPending_all_completed)
  have b: "\<exists>n. getNextVaccination zone dateOfBirth cs today = Inr (Some n) \<and>
                 NextVaccination.vaccineName n = VaccinationScheduleItem.name s \<and>
                 NextVaccination.doseNumber n = VaccinationScheduleItem.dose s \<and>
                 NextVaccination.scheduledDate n = date s \<and>
                 NextVaccination.method' n = VaccinationScheduleItem.method' s \<and>
                 NextVaccination.purpose n = VaccinationScheduleItem.purpose s \<and>
                 NextVaccination.status n =
                   (if date s < today div msPerDay \<or>
                       (date s = today div msPerDay \<and> today mod msPerDay \<noteq> 0)
                    then ''overdue'' else ''scheduled'')"
    if "schedule = pre @ s # post \<and> list_all (isCompleted cs) pre \<and> \<not> isCompleted cs s"
    for pre s post
  proof -
    from that have "findNextPending schedule cs today = Some (nextVaccination s today)"
      by (simp add: findNextPending_first)
    then have "getNextVaccination zone dateOfBirth cs today = Inr (Some (nextVaccination s today))"
      unfolding g by simp
    moreover have "NextVaccination.status (nextVaccination s today) =
                   (if date s < today div msPerDay \<or>
                       (date s = today div msPerDay \<and> today mod msPerDay \<noteq> 0)
                    then ''overdue'' else ''scheduled'')"
      unfolding status_nextVaccination midnight_before_iff ..
    ultimately show ?thesis
      by (intro exI [of _ "nextVaccination s today"] conjI fields_nextVaccination)
  qed
  show ?thesis
  proof (intro conjI allI impI)
    show "getNextVaccination zone dateOfBirth cs today = Inr None \<longleftrightarrow>
            list_all (isCompleted cs) schedule" by (rule a)
  qed (rule b)
qed

text \<open>
  The theorem for a child born on 2024-01-01 with BCG recorded as administered, at midnight
  UTC of that day: the next pending item is OPV dose 1, dated that day and \<open>scheduled\<close>.
\<close>

theorem next_pending_witness:
  "\<exists>schedule. generateVaccinationSchedule zoneUTC (Some 1704067200000) = Inr schedule \<and>
     (\<exists>n. getNextVaccination zoneUTC (Some 1704067200000)
             [\<lparr>Vaccination.vaccineName = ''BCG'', Vaccination.doseNumber = 1,
               Vaccination.scheduledDate = ''2024-01-01'',
               Vaccination.administeredDate = Some ''2024-01-02'',
               Vaccination.status = ''administered''\<rparr>] 1704067200000 = Inr (Some n) \<and>
          NextVaccination.vaccineName n = ''OPV'' \<and> NextVaccination.doseNumber n = 1 \<and>
          NextVaccination.scheduledDate n = 19723 \<and> NextVaccination.status n = ''scheduled'')"
proof -
  define cs where "cs = [\<lparr>Vaccination.vaccineName = ''BCG'', Vaccination.doseNumber = 1,
               Vaccination.scheduledDate = ''2024-01-01'',
               Vaccination.administeredDate = Some ''2024-01-02'',
               Vaccination.status = ''administered''\<rparr>]"
  define bcg where "bcg = \<lparr>VaccinationScheduleItem.name = ''BCG'', VaccinationScheduleItem.dose = 1, date = 19723,
       ageAtVaccination = ''At birth'',
       VaccinationScheduleItem.method' = ''0.05ml intradermal injection, left forearm'',
       VaccinationScheduleItem.purpose = ''Protects against tuberculosis (TB)''\<rparr>"
  define opv where "opv = \<lparr>VaccinationScheduleItem.name = ''OPV'', VaccinationScheduleItem.dose = 1, date = 19723,
       ageAtVaccination = ''At birth'',
       VaccinationScheduleItem.method' = ''2 oral drops'',
       VaccinationScheduleItem.purpose = ''Protects against polio''\<rparr>"
  define post where "post = map (entryVisit zoneUTC 1704067200000) (drop 2 KEPI_SCHEDULE)"
  define schedule where "schedule = map (entryVisit zoneUTC 1704067200000) KEPI_SCHEDULE"
  have g: "generateVaccinationSchedule zoneUTC (Some 1704067200000) = Inr schedule"
    unfolding schedule_def by (rule generate_2024)
  have s: "schedule = [bcg] @ opv # post"
    unfolding schedule_def bcg_def opv_def post_def by (simp add: schedule_2024)
  have c1: "list_all (isCompleted cs) [bcg]" by (simp add: isCompleted_def cs_def bcg_def)
  have c2: "\<not> isCompleted cs opv" by (simp add: isCompleted_def cs_def opv_def)
  from s c1 c2 have h: "schedule = [bcg] @ opv # post \<and> list_all (isCompleted cs) [bcg] \<and>
      \<not> isCompleted cs opv" by (intro conjI)
  from next_pending [OF g, of cs 1704067200000, THEN conjunct2, rule_format, OF h]
  obtain n where n: "getNextVaccination zoneUTC (Some 1704067200000) cs 1704067200000 = Inr (Some n)"
    and "NextVaccination.vaccineName n = VaccinationScheduleItem.name opv"
    and "NextVaccination.doseNumber n = VaccinationScheduleItem.dose opv"
    and "NextVaccination.scheduledDate n = date opv"
    and "NextVaccination.status n =
           (if date opv < 1704067200000 div msPerDay \<or>
               (date opv = 1704067200000 div msPerDay \<and> 1704067200000 mod msPerDay \<noteq> 0)
            then ''overdue'' else ''scheduled'')"
    by (elim exE conjE)
  then have "NextVaccination.vaccineName n = ''OPV''" "NextVaccination.doseNumber n = 1"
    "NextVaccination.scheduledDate n = 19723" "NextVaccination.status n = ''scheduled''"
    by (simp_all add: opv_def msPerDay_def)
  with n g show ?thesis unfolding cs_def by (intro exI conjI)
qed

section \<open>Vaccination progress\<close>

text \<open>
  \<^const>\<open>roundedPercentage\<close> is the integer nearest to \<open>100 * c / d\<close>, a half rounded up.
\<close>

lemma roundedPercentage_bounds:
  assumes d: "0 < d"
  shows "2 * int d * roundedPercentage c d - int d \<le> 200 * int c \<and>
         200 * int c < 2 * int d * roundedPercentage c d + int d"
proof -
  define x :: rat where "x = (of_nat c / of_nat d) * 100"
  define p where "p = roundedPercentage c d"
  have p: "p = \<lfloor>x + 1 / 2\<rfloor>" by (simp add: p_def roundedPercentage_def Math_round_def x_def)
  have dpos: "(0::rat) < of_nat d" using d by simp
  have xd: "x * of_nat d = 100 * of_nat c" using d by (simp add: x_def)
  have lo: "of_int p \<le> x + 1 / 2" unfolding p by (rule of_int_floor_le)
  have hi: "x + 1 / 2 < of_int p + 1" unfolding p using floor_correct [of "x + 1 / 2"] by simp
  from lo have "of_int p * (2 * of_nat d) \<le> (x + 1 / 2) * (2 * of_nat d)"
    using dpos by (intro mult_right_mono) simp_all
  also have "\<dots> = 200 * of_nat c + of_nat d" using xd by (simp add: algebra_simps)
  finally have "(of_int (2 * int d * p) :: rat) \<le> of_int (200 * int c + int d)"
    by (simp add: algebra_simps)
  then have a: "2 * int d * p \<le> 200 * int c + int d" by (simp only: of_int_le_iff)
  from hi have "(x + 1 / 2) * (2 * of_nat d) < (of_int p + 1) * (2 * of_nat d)"
    using dpos by (intro mult_strict_right_mono) simp_all
  moreover have "(x + 1 / 2) * (2 * of_nat d) = 200 * of_nat c + of_nat d"
    using xd by (simp add: algebra_simps)
  ultimately have "(of_int (200 * int c + int d) :: rat) < of_int (2 * int d * p + 2 * int d)"
    by (simp add: algebra_simps)
  then have b: "200 * int c + int d < 2 * int d * p + 2 * int d" by (simp only: of_int_less_iff)
  from a b show ?thesis unfolding p_def by linarith
qed

lemma roundedPercentage_1_3: "roundedPercentage 1 3 = 33"
proof -
  have "((1::rat) / 3) * 100 + 1 / 2 = 203 / 6" by simp
  moreover have "\<lfloor>(203::rat) / 6\<rfloor> = 33" by (simp add: floor_divide_of_int_eq [where ?'a = rat, of 203 6, simplified])
  ultimately show ?thesis by (simp add: roundedPercentage_def Math_round_def)
qed

lemma roundedPercentage_exceeds:
  assumes "0 < d" and "d < c" and "d < 200"
  shows "100 < roundedPercentage c d"
proof (rule ccontr)
  assume "\<not> 100 < roundedPercentage c d"
  then have "roundedPercentage c d \<le> 100" by simp
  then have "roundedPercentage c d * (2 * int d) \<le> 100 * (2 * int d)"
    by (intro mult_right_mono) simp_all
  then have "2 * int d * roundedPercentage c d \<le> 200 * int d" by (simp add: algebra_simps)
  moreover from roundedPercentage_bounds [OF assms(1), of c]
  have "200 * int c < 2 * int d * roundedPercentage c d + int d" by simp
  moreover from assms have "int d + 1 \<le> int c" "int d < 200" by simp_all
  ultimately show False by linarith
qed

lemma schedule_length:
  assumes "generateVaccinationSchedule zone dateOfBirth = Inr schedule"
  shows "length schedule = 18"
proof (cases dateOfBirth)
  case None
  with assms show ?thesis
    by (simp add: generateVaccinationSchedule_def generateScheduleFrom_None KEPI_SCHEDULE_def)
next
  case (Some t)
  with assms have "schedule =
      sort_key (\<lambda>a. parseISODate (date a)) (map (entryVisit zone t) KEPI_SCHEDULE)"
    by (simp add: generateVaccinationSchedule_Some split: if_splits)
  moreover have "length KEPI_SCHEDULE = 18" by (simp add: KEPI_SCHEDULE_def)
  ultimately show ?thesis by simp
qed

lemma due_count:
  "length (filter (\<lambda>v. date v \<le> k) (map (entryVisit (fixedZone c) t) table)) =
   length (filter (\<lambda>off. t div msPerDay + off \<le> k) (map offsetDays table))"
  by (simp add: filter_map comp_def date_entryVisit_fixedZone)

text \<open>
  C3. For every birth date from which the schedule is generated (in whatever time
  zone), every completion list and every clock value: \<open>totalVaccines\<close> (the due count) is the number of schedule items
  dated on or before today's UTC date; \<open>completedVaccines\<close> is the number of completion
  records with status \<open>administered\<close>, whatever their dates and whether or not they match
  a due item; \<open>progressPercentage\<close> is 0 when nothing is due and otherwise the integer
  nearest to \<open>100 * completedVaccines / totalVaccines\<close> (a half rounded up), not clamped:
  it is above 100 whenever more records are administered than items are due. One
  completed of three due gives 33.
\<close>

theorem vaccination_progress:
  assumes "generateVaccinationSchedule zone dateOfBirth = Inr schedule"
  shows "\<exists>r. calculateVaccinationProgress zone dateOfBirth cs today today' = Inr r \<and>
           totalVaccines r = length (filter (\<lambda>v. date v \<le> today div msPerDay) schedule) \<and>
           completedVaccines r =
             length (filter (\<lambda>c. Vaccination.status c = ''administered'') cs) \<and>
           (totalVaccines r = 0 \<longrightarrow> progressPercentage r = 0) \<and>
           (0 < totalVaccines r \<longrightarrow>
              progressPercentage r = roundedPercentage (completedVaccines r) (totalVaccines r) \<and>
              2 * int (totalVaccines r) * progressPercentage r - int (totalVaccines r)
                \<le> 200 * int (completedVaccines r) \<and>
              200 * int (completedVaccines r)
                < 2 * int (totalVaccines r) * progressPercentage r + int (totalVaccines r)) \<and>
           (0 < totalVaccines r \<and> totalVaccines r < completedVaccines r \<longrightarrow>
              100 < progressPercentage r) \<and>
           nextDue r = findNextPending schedule cs today' \<and>
           roundedPercentage 1 3 = 33"
proof -
  define due where "due = length (filter (\<lambda>v. date v \<le> today div msPerDay) schedule)"
  define adm where "adm = length (filter (\<lambda>c. Vaccination.status c = ''administered'') cs)"
  define r where "r = \<lparr>totalVaccines = due, completedVaccines = adm,
    progressPercentage = (if due > 0 then roundedPercentage adm due else 0),
    nextDue = findNextPending schedule cs today'\<rparr>"
  have g: "calculateVaccinationProgress zone dateOfBirth cs today today' = Inr r"
    using assms
    by (simp add: calculateVaccinationProgress_def getNextVaccination_def Let_def midnight_le_iff
        r_def due_def adm_def)
  have sel: "totalVaccines r = due" "completedVaccines r = adm"
    "progressPercentage r = (if due > 0 then roundedPercentage adm due else 0)"
    "nextDue r = findNextPending schedule cs today'"
    by (simp_all add: r_def)
  have "due \<le> length schedule" unfolding due_def by (rule length_filter_le)
  then have small: "due < 200" using schedule_length [OF assms] by simp
  have "totalVaccines r = length (filter (\<lambda>v. date v \<le> today div msPerDay) schedule)"
    by (simp only: sel due_def)
  moreover have "completedVaccines r =
             length (filter (\<lambda>c. Vaccination.status c = ''administered'') cs)"
    by (simp only: sel adm_def)
  moreover have "totalVaccines r = 0 \<longrightarrow> progressPercentage r = 0"
    by (simp add: sel)
  moreover have "0 < totalVaccines r \<longrightarrow>
              progressPercentage r = roundedPercentage (completedVaccines r) (totalVaccines r) \<and>
              2 * int (totalVaccines r) * progressPercentage r - int (totalVaccines r)
                \<le> 200 * int (completedVaccines r) \<and>
              200 * int (completedVaccines r)
                < 2 * int (totalVaccines r) * progressPercentage r + int (totalVaccines r)"
    using roundedPercentage_bounds [of due adm] by (simp add: sel)
  moreover have "0 < totalVaccines r \<and> totalVaccines r < completedVaccines r \<longrightarrow>
              100 < progressPercentage r"
    using roundedPercentage_exceeds [of due adm] small by (simp add: sel)
  moreover note sel(4) roundedPercentage_1_3 g
  ultimately show ?thesis by (intro exI [of _ r] conjI)
qed

text \<open>
  The theorem for a child born on 2024-01-01, at noon of that day, with three records
  administered: two items are due, and the percentage is above 100.
\<close>

theorem vaccination_progress_witness:
  "\<exists>schedule. generateVaccinationSchedule zoneUTC (Some 1704067200000) = Inr schedule \<and>
     (\<exists>r. calculateVaccinationProgress zoneUTC (Some 1704067200000)
             [\<lparr>Vaccination.vaccineName = ''BCG'', Vaccination.doseNumber = 1,
               Vaccination.scheduledDate = ''2024-01-01'',
               Vaccination.administeredDate = Some ''2024-01-01'',
               Vaccination.status = ''administered''\<rparr>,
              \<lparr>Vaccination.vaccineName = ''OPV'', Vaccination.doseNumber = 1,
               Vaccination.scheduledDate = ''2024-01-01'',
               Vaccination.administeredDate = Some ''2024-01-01'',
               Vaccination.status = ''administered''\<rparr>,
              \<lparr>Vaccination.vaccineName = ''OPV'', Vaccination.doseNumber = 2,
               Vaccination.scheduledDate = ''2024-02-12'',
               Vaccination.administeredDate = Some ''2024-01-01'',
               Vaccination.status = ''administered''\<rparr>]
             1704110400000 1704110400001 = Inr r \<and>
          totalVaccines r = 2 \<and> completedVaccines r = 3 \<and>
          0 < totalVaccines r \<and> totalVaccines r < completedVaccines r \<and>
          100 < progressPercentage r)"
proof -
  define cs where "cs = [\<lparr>Vaccination.vaccineName = ''BCG'', Vaccination.doseNumber = 1,
               Vaccination.scheduledDate = ''2024-01-01'',
               Vaccination.administeredDate = Some ''2024-01-01'',
               Vaccination.status = ''administered''\<rparr>,
              \<lparr>Vaccination.vaccineName = ''OPV'', Vaccination.doseNumber = 1,
               Vaccination.scheduledDate = ''2024-01-01'',
               Vaccination.administeredDate = Some ''2024-01-01'',
               Vaccination.status = ''administered''\<rparr>,
              \<lparr>Vaccination.vaccineName = ''OPV'', Vaccination.doseNumber = 2,
               Vaccination.scheduledDate = ''2024-02-12'',
               Vaccination.administeredDate = Some ''2024-01-01'',
               Vaccination.status = ''administered''\<rparr>]"
  define schedule where "schedule = map (entryVisit zoneUTC 1704067200000) KEPI_SCHEDULE"
  have g: "generateVaccinationSchedule zoneUTC (Some 1704067200000) = Inr schedule"
    unfolding schedule_def by (rule generate_2024)
  have due: "length (filter (\<lambda>v. date v \<le> 1704110400000 div msPerDay) schedule) = 2"
    unfolding schedule_def zoneUTC_def due_count KEPI_offsets by (simp add: msPerDay_def)
  have adm: "length (filter (\<lambda>c. Vaccination.status c = ''administered'') cs) = 3"
    by (simp add: cs_def)
  from vaccination_progress [OF g, of cs 1704110400000 1704110400001]
  obtain r where r: "calculateVaccinationProgress zoneUTC (Some 1704067200000) cs
        1704110400000 1704110400001 = Inr r"
    and t: "totalVaccines r = length (filter (\<lambda>v. date v \<le> 1704110400000 div msPerDay) schedule)"
    and c: "completedVaccines r = length (filter (\<lambda>c. Vaccination.status c = ''administered'') cs)"
    and e: "0 < totalVaccines r \<and> totalVaccines r < completedVaccines r \<longrightarrow>
              100 < progressPercentage r"
    by (elim exE conjE)
  from t due have t2: "totalVaccines r = 2" by simp
  from c adm have c3: "completedVaccines r = 3" by simp
  from t2 c3 have p: "0 < totalVaccines r" "totalVaccines r < completedVaccines r" by simp_all
  with e have "100 < progressPercentage r" by simp
  with r g t2 c3 p show ?thesis unfolding cs_def by (intro exI conjI)
qed

end
